theory Spec2Isabelle
  imports Main "HOL-Library.AList" "HOL-Library.Word"
begin

section \<open>The Deno server (src/server.ts): data\<close>

text \<open>
  Numbers of the TypeScript server are modelled as \<^typ>\<open>int\<close>: coordinates, speeds,
  scores and times are taken in the range where double arithmetic on integers is exact.
  Every object of the server (players, rooms) lives in a heap, a list indexed by the
  object's address, because the program shares them: a \<open>Player\<close> is referenced from
  \<open>playerMap\<close>, from \<open>room.players\<close> and from \<open>room.gameState.players\<close>, and a \<open>Room\<close>
  from \<open>rooms\<close>, from \<open>player.room\<close> and from the closure of its interval timer.
  A JavaScript \<open>Map\<close> is an association list in insertion order: \<open>AList.update\<close> is
  \<open>Map.set\<close> (replace in place, or append), \<open>AList.delete\<close> is \<open>Map.delete\<close>, and its
  \<open>size\<close> is the length of the list.
\<close>

record Position =
  pos_x :: int
  pos_y :: int

type_synonym Board = "string list list"

record Player =
  p_id :: string
  p_name :: string
  p_color :: string
  p_score :: int
  p_position :: Position
  p_targetPosition :: Position
  p_moveStartTime :: int
  p_socket :: nat
  p_room :: "nat option"

record GameState =
  gs_board :: Board
  gs_players :: "nat list"
  gs_chatMessages :: "string list"

record Room =
  r_id :: string
  r_players :: "(string \<times> nat) list"
  r_gameState :: GameState
  r_duration :: int
  r_startTime :: int

text \<open>The inbound \<open>Message\<close>: only the fields \<open>processMessage\<close> reads; an absent field is \<open>None\<close>.\<close>

record Message =
  m_type :: string
  m_name :: "string option"
  m_direction :: "string option"
  m_speed :: "int option"
  m_chatMessage :: "string option"

text \<open>\<open>PlayerData\<close>: a player without its \<open>socket\<close> and \<open>room\<close>, as it is serialised.\<close>

record PlayerData =
  pd_id :: string
  pd_name :: string
  pd_color :: string
  pd_score :: int
  pd_position :: Position
  pd_targetPosition :: Position
  pd_moveStartTime :: int

text \<open>The outbound messages, one constructor for each \<open>type\<close> the server sends.\<close>

datatype BroadcastMessage =
    PlayerJoined string
  | PositionUpdate string int int
  | Chat string string "string option"
  | GameOver "PlayerData option"
  | GameStateMsg Board "PlayerData list" "string list" int

text \<open>
  The process state: the two global maps of the source, the two heaps, the rooms whose
  \<open>setInterval\<close> timer is active, and the log of every \<open>socket.send\<close> (socket, message).
\<close>

record Server =
  rooms :: "(string \<times> nat) list"
  playerMap :: "(nat \<times> nat) list"
  room_heap :: "Room list"
  player_heap :: "Player list"
  intervals :: "nat list"
  sent :: "(nat \<times> BroadcastMessage) list"

definition boardSize :: int where
  "boardSize = 50"

definition playerSpeed :: int where
  "playerSpeed = 1"

definition gameInterval :: int where
  "gameInterval = 100"

definition gameDuration :: int where
  "gameDuration = 3 * 60 * 1000"

definition maxPlayers :: nat where
  "maxPlayers = 4"

definition init_server :: Server where
  "init_server = \<lparr>rooms = [], playerMap = [], room_heap = [], player_heap = [],
     intervals = [], sent = []\<rparr>"

definition upd_player :: "nat \<Rightarrow> (Player \<Rightarrow> Player) \<Rightarrow> Server \<Rightarrow> Server" where
  "upd_player a f s = s\<lparr>player_heap := (player_heap s)[a := f (player_heap s ! a)]\<rparr>"

definition upd_room :: "nat \<Rightarrow> (Room \<Rightarrow> Room) \<Rightarrow> Server \<Rightarrow> Server" where
  "upd_room a f s = s\<lparr>room_heap := (room_heap s)[a := f (room_heap s ! a)]\<rparr>"

definition set_board :: "Board \<Rightarrow> Room \<Rightarrow> Room" where
  "set_board b r = r\<lparr>r_gameState := (r_gameState r)\<lparr>gs_board := b\<rparr>\<rparr>"

section \<open>Grid helpers\<close>

definition createBoard :: Board where
  "createBoard = replicate (nat boardSize) (replicate (nat boardSize) [])"

definition isValidPosition :: "Position \<Rightarrow> bool" where
  "isValidPosition position =
     (pos_x position \<ge> 0 \<and> pos_x position < boardSize \<and>
      pos_y position \<ge> 0 \<and> pos_y position < boardSize)"

text \<open>
  \<open>if (isValidPosition(p)) { board[p.y][p.x] = color; }\<close>, the statement both the tick and
  the initial claim run. On a board of \<open>boardSize\<close> rows of \<open>boardSize\<close> cells the guard
  keeps both indices inside the arrays, so the write neither grows a row nor reads a
  missing one (lemma \<open>valid_in_range\<close>).
\<close>

definition claimCell :: "Board \<Rightarrow> Position \<Rightarrow> string \<Rightarrow> Board" where
  "claimCell board position color =
     (if isValidPosition position
      then board[nat (pos_y position) :=
                   (board ! nat (pos_y position))[nat (pos_x position) := color]]
      else board)"

definition cell :: "Board \<Rightarrow> Position \<Rightarrow> string" where
  "cell board position = board ! nat (pos_y position) ! nat (pos_x position)"

definition wf_board :: "Board \<Rightarrow> bool" where
  "wf_board board =
     (length board = nat boardSize \<and> list_all (\<lambda>row. length row = nat boardSize) board)"

text \<open>The two nested loops of \<open>countPlayerSquares\<close>, with the running \<open>count\<close>.\<close>

definition countPlayerSquares :: "Board \<Rightarrow> string \<Rightarrow> int" where
  "countPlayerSquares board color =
     fold (\<lambda>row count. fold (\<lambda>c count. if c = color then count + 1 else count) row count)
       board 0"

text \<open>
  \<open>getRandomPosition\<close>: the two arguments are the values of
  \<open>Math.floor(Math.random() * 4)\<close> and of \<open>Math.floor(Math.random() * boardSize)\<close>
  (each branch of the switch draws at most one coordinate).
\<close>

definition getRandomPosition :: "int \<times> int \<Rightarrow> Position" where
  "getRandomPosition d =
     (case d of (side, r) \<Rightarrow>
        if side = 0 then \<lparr>pos_x = r, pos_y = 0\<rparr>
        else if side = 1 then \<lparr>pos_x = boardSize - 1, pos_y = r\<rparr>
        else if side = 2 then \<lparr>pos_x = r, pos_y = boardSize - 1\<rparr>
        else if side = 3 then \<lparr>pos_x = 0, pos_y = r\<rparr>
        else \<lparr>pos_x = 0, pos_y = 0\<rparr>)"

text \<open>\<open>getRandomColor\<close>: \<open>draw i\<close> is the value of \<open>Math.floor(Math.random() * 16)\<close> in round \<open>i\<close>.\<close>

definition getRandomColor :: "(nat \<Rightarrow> nat) \<Rightarrow> string" where
  "getRandomColor draw =
     fold (\<lambda>i color. color @ [''0123456789ABCDEF'' ! draw i]) [0..<6] ''#''"

definition updatePlayerPosition :: "Player \<Rightarrow> string \<Rightarrow> int \<Rightarrow> Player" where
  "updatePlayerPosition player direction speed =
     (let targetPosition = p_targetPosition player;
          targetPosition' =
            (if direction = ''up'' then targetPosition\<lparr>pos_y := pos_y targetPosition - speed\<rparr>
             else if direction = ''down'' then targetPosition\<lparr>pos_y := pos_y targetPosition + speed\<rparr>
             else if direction = ''left'' then targetPosition\<lparr>pos_x := pos_x targetPosition - speed\<rparr>
             else if direction = ''right'' then targetPosition\<lparr>pos_x := pos_x targetPosition + speed\<rparr>
             else targetPosition)
      in player\<lparr>p_targetPosition := targetPosition', p_position := targetPosition'\<rparr>)"

definition claimInitialTerritory :: "Board \<Rightarrow> Position \<Rightarrow> string \<Rightarrow> Board" where
  "claimInitialTerritory board position color =
     (let x = pos_x position; y = pos_y position;
          claimPositions =
            [\<lparr>pos_x = x, pos_y = y\<rparr>,
             \<lparr>pos_x = x - 1, pos_y = y\<rparr>,
             \<lparr>pos_x = x + 1, pos_y = y\<rparr>,
             \<lparr>pos_x = x, pos_y = y - 1\<rparr>,
             \<lparr>pos_x = x, pos_y = y + 1\<rparr>,
             \<lparr>pos_x = x - 1, pos_y = y - 1\<rparr>,
             \<lparr>pos_x = x - 1, pos_y = y + 1\<rparr>,
             \<lparr>pos_x = x + 1, pos_y = y - 1\<rparr>,
             \<lparr>pos_x = x + 1, pos_y = y + 1\<rparr>]
      in fold (\<lambda>position board. claimCell board position color) claimPositions board)"

section \<open>The Deno server: operations\<close>

definition playerData :: "Player \<Rightarrow> PlayerData" where
  "playerData player =
     \<lparr>pd_id = p_id player, pd_name = p_name player, pd_color = p_color player,
      pd_score = p_score player, pd_position = p_position player,
      pd_targetPosition = p_targetPosition player,
      pd_moveStartTime = p_moveStartTime player\<rparr>"

text \<open>\<open>broadcastMessage\<close>: one \<open>socket.send\<close> for each value of \<open>room.players\<close>, in map order.\<close>

definition broadcastMessage :: "nat \<Rightarrow> BroadcastMessage \<Rightarrow> Server \<Rightarrow> Server" where
  "broadcastMessage ra msg s =
     s\<lparr>sent := sent s @
        map (\<lambda>(k, pa). (p_socket (player_heap s ! pa), msg)) (r_players (room_heap s ! ra))\<rparr>"

definition broadcastGameState :: "nat \<Rightarrow> int \<Rightarrow> Server \<Rightarrow> Server" where
  "broadcastGameState ra remainingTime s =
     (let room = room_heap s ! ra;
          playersData = map (\<lambda>pa. playerData (player_heap s ! pa)) (gs_players (r_gameState room));
          message = GameStateMsg (gs_board (r_gameState room)) playersData
                      (gs_chatMessages (r_gameState room)) (remainingTime div 1000)
      in s\<lparr>sent := sent s @
           map (\<lambda>(k, pa). (p_socket (player_heap s ! pa), message)) (r_players room)\<rparr>)"

text \<open>
  What one connection draws from \<open>crypto.getRandomValues\<close>, \<open>Math.random\<close> and
  \<open>Date.now\<close>: the player's id, the digits of its colour, the two positions of
  \<open>createPlayer\<close>, the id of the room \<open>createRoom\<close> would make, the position drawn
  in round \<open>k\<close> of \<open>startGame\<close> (round 0 in \<open>joinRoom\<close>), and the clock.
\<close>

record Entropy =
  e_id :: string
  e_color :: "nat \<Rightarrow> nat"
  e_position :: "int \<times> int"
  e_targetPosition :: "int \<times> int"
  e_roomId :: string
  e_spawn :: "nat \<Rightarrow> int \<times> int"
  e_now :: int

definition createPlayer :: "nat \<Rightarrow> Entropy \<Rightarrow> Player" where
  "createPlayer socket e =
     \<lparr>p_id = e_id e, p_name = [], p_color = getRandomColor (e_color e), p_score = 0,
      p_position = getRandomPosition (e_position e),
      p_targetPosition = getRandomPosition (e_targetPosition e),
      p_moveStartTime = 0, p_socket = socket, p_room = None\<rparr>"

text \<open>\<open>createRoom\<close> allocates the room at the end of the heap and registers it; it returns the address.\<close>

definition createRoom :: "string \<Rightarrow> Server \<Rightarrow> Server \<times> nat" where
  "createRoom roomId s =
     (let gameState = \<lparr>gs_board = createBoard, gs_players = [], gs_chatMessages = []\<rparr>;
          room = \<lparr>r_id = roomId, r_players = [], r_gameState = gameState,
                  r_duration = gameDuration, r_startTime = 0\<rparr>;
          ra = length (room_heap s)
      in (s\<lparr>room_heap := room_heap s @ [room], rooms := AList.update roomId ra (rooms s)\<rparr>, ra))"

definition findOrCreateRoom :: "string \<Rightarrow> Server \<Rightarrow> Server \<times> nat" where
  "findOrCreateRoom roomId s =
     (case List.find (\<lambda>(k, ra). length (r_players (room_heap s ! ra)) < maxPlayers) (rooms s) of
        Some (k, ra) \<Rightarrow> (s, ra)
      | None \<Rightarrow> createRoom roomId s)"

fun startGame_loop :: "(nat \<Rightarrow> int \<times> int) \<Rightarrow> nat \<Rightarrow> nat \<Rightarrow> nat list \<Rightarrow> Server \<Rightarrow> Server" where
  "startGame_loop rnd k ra [] s = s"
| "startGame_loop rnd k ra (pa # pas) s =
     (let position = getRandomPosition (rnd k);
          s1 = upd_player pa (\<lambda>p. p\<lparr>p_position := position, p_targetPosition := position\<rparr>) s;
          s2 = upd_room ra (\<lambda>r. r\<lparr>r_gameState := (r_gameState r)
                  \<lparr>gs_players := gs_players (r_gameState r) @ [pa]\<rparr>\<rparr>) s1
      in startGame_loop rnd (Suc k) ra pas s2)"

definition startGame :: "nat \<Rightarrow> (nat \<Rightarrow> int \<times> int) \<Rightarrow> int \<Rightarrow> Server \<Rightarrow> Server" where
  "startGame ra rnd now s =
     (let s1 = upd_room ra (\<lambda>r. r\<lparr>r_startTime := now\<rparr>) s;
          s2 = startGame_loop rnd 0 ra (map snd (r_players (room_heap s1 ! ra))) s1
      in s2\<lparr>intervals := intervals s2 @ [ra]\<rparr>)"

definition joinRoom :: "nat \<Rightarrow> nat \<Rightarrow> (nat \<Rightarrow> int \<times> int) \<Rightarrow> int \<Rightarrow> Server \<Rightarrow> Server" where
  "joinRoom pa ra rnd now s =
     (let s1 = upd_player pa (\<lambda>p. p\<lparr>p_room := Some ra\<rparr>) s;
          s2 = upd_room ra
                 (\<lambda>r. r\<lparr>r_players := AList.update (p_id (player_heap s1 ! pa)) pa (r_players r)\<rparr>) s1
      in if length (r_players (room_heap s2 ! ra)) = 1 then startGame ra rnd now s2
         else
           (let position = getRandomPosition (rnd 0);
                s3 = upd_player pa
                       (\<lambda>p. p\<lparr>p_position := position, p_targetPosition := position\<rparr>) s2;
                player = player_heap s3 ! pa;
                s4 = upd_room ra
                       (\<lambda>r. set_board (claimInitialTerritory (gs_board (r_gameState r))
                                          (p_position player) (p_color player)) r) s3
            in broadcastMessage ra (PlayerJoined (p_name player)) s4))"

fun updateGame_loop :: "nat \<Rightarrow> nat list \<Rightarrow> Server \<Rightarrow> Server" where
  "updateGame_loop ra [] s = s"
| "updateGame_loop ra (pa # pas) s =
     (let player = player_heap s ! pa;
          board = claimCell (gs_board (r_gameState (room_heap s ! ra)))
                    (p_position player) (p_color player);
          s1 = upd_room ra (set_board board) s;
          s2 = upd_player pa (\<lambda>p. p\<lparr>p_score := countPlayerSquares board (p_color player)\<rparr>) s1
      in updateGame_loop ra pas s2)"

definition updateGame :: "nat \<Rightarrow> Server \<Rightarrow> Server" where
  "updateGame ra s = updateGame_loop ra (gs_players (r_gameState (room_heap s ! ra))) s"

text \<open>
  The \<open>reduce\<close> of \<open>endGame\<close>: it starts from \<open>players[0]\<close> and visits every element;
  on the empty array it returns its initial value, \<open>undefined\<close>.
\<close>

definition pickWinner :: "Player list \<Rightarrow> nat list \<Rightarrow> nat option" where
  "pickWinner heap players =
     (case players of
        [] \<Rightarrow> None
      | first # rest \<Rightarrow>
          Some (fold (\<lambda>player maxScorePlayer.
                  if p_score (heap ! player) > p_score (heap ! maxScorePlayer)
                  then player else maxScorePlayer) players first))"

definition endGame :: "nat \<Rightarrow> Server \<Rightarrow> Server" where
  "endGame ra s =
     (let room = room_heap s ! ra;
          winner = pickWinner (player_heap s) (gs_players (r_gameState room));
          s1 = broadcastMessage ra
                 (GameOver (map_option (\<lambda>pa. playerData (player_heap s ! pa)) winner)) s
      in s1\<lparr>rooms := AList.delete (r_id room) (rooms s1)\<rparr>)"

text \<open>The callback \<open>startGame\<close> hands to \<open>setInterval\<close>; \<open>now\<close> is what \<open>Date.now()\<close> returns.\<close>

definition tick :: "nat \<Rightarrow> int \<Rightarrow> Server \<Rightarrow> Server" where
  "tick ra now s =
     (let s1 = updateGame ra s;
          room = room_heap s1 ! ra;
          remainingTime = r_duration room - (now - r_startTime room);
          s2 = (if remainingTime \<le> 0
                then (let s' = endGame ra s1 in s'\<lparr>intervals := remove1 ra (intervals s')\<rparr>)
                else s1)
      in broadcastGameState ra remainingTime s2)"

text \<open>
  \<open>processMessage\<close>: \<open>message.name || ""\<close>, \<open>message.direction || ""\<close> and
  \<open>message.speed || 0\<close> replace an absent field; the template string prints an absent
  \<open>chatMessage\<close> as \<open>undefined\<close>. \<open>draw\<close> feeds the \<open>getRandomColor\<close> of a join.
  The switch has no default case.
\<close>

definition processMessage :: "nat \<Rightarrow> Message \<Rightarrow> (nat \<Rightarrow> nat) \<Rightarrow> Server \<Rightarrow> Server" where
  "processMessage pa message draw s =
     (case p_room (player_heap s ! pa) of
        None \<Rightarrow> s
      | Some ra \<Rightarrow>
          if m_type message = ''join'' then
            upd_player pa
              (\<lambda>p. p\<lparr>p_name := (case m_name message of None \<Rightarrow> [] | Some n \<Rightarrow> n),
                      p_color := getRandomColor draw\<rparr>) s
          else if m_type message = ''move'' then
            (let s1 = upd_player pa
                        (\<lambda>p. updatePlayerPosition p
                                (case m_direction message of None \<Rightarrow> [] | Some d \<Rightarrow> d)
                                (case m_speed message of None \<Rightarrow> 0 | Some v \<Rightarrow> v)) s;
                 player = player_heap s1 ! pa
             in broadcastMessage ra
                  (PositionUpdate (p_id player) (pos_x (p_position player))
                     (pos_y (p_position player))) s1)
          else if m_type message = ''stop'' then
            upd_player pa (\<lambda>p. p\<lparr>p_targetPosition := p_position p\<rparr>) s
          else if m_type message = ''chat'' then
            (let player = player_heap s ! pa;
                 line = p_name player @ '': '' @
                        (case m_chatMessage message of None \<Rightarrow> ''undefined'' | Some c \<Rightarrow> c);
                 s1 = upd_room ra
                        (\<lambda>r. r\<lparr>r_gameState := (r_gameState r)
                           \<lparr>gs_chatMessages := gs_chatMessages (r_gameState r) @ [line]\<rparr>\<rparr>) s
             in broadcastMessage ra
                  (Chat (p_id player) (p_name player) (m_chatMessage message)) s1)
          else s)"

definition leaveRoom :: "nat \<Rightarrow> Server \<Rightarrow> Server" where
  "leaveRoom pa s =
     (case p_room (player_heap s ! pa) of
        None \<Rightarrow> s
      | Some ra \<Rightarrow>
          (let s1 = upd_room ra
                      (\<lambda>r. r\<lparr>r_players := AList.delete (p_id (player_heap s ! pa)) (r_players r)\<rparr>) s;
               s2 = upd_player pa (\<lambda>p. p\<lparr>p_room := None\<rparr>) s1
           in if length (r_players (room_heap s2 ! ra)) = 0
              then s2\<lparr>rooms := AList.delete (r_id (room_heap s2 ! ra)) (rooms s2)\<rparr>
              else s2))"

text \<open>
  The three socket handlers of \<open>handle\<close>. The player is allocated at the end of its heap.
  \<open>onmessage\<close> takes the message as \<open>JSON.parse\<close> returns it; a payload that does not
  parse raises inside the handler before any state is read. Console output is left out.
\<close>

definition onopen :: "nat \<Rightarrow> Entropy \<Rightarrow> Server \<Rightarrow> Server" where
  "onopen socket e s =
     (let player = createPlayer socket e;
          pa = length (player_heap s);
          s1 = s\<lparr>player_heap := player_heap s @ [player],
                 playerMap := AList.update socket pa (playerMap s)\<rparr>;
          (s2, ra) = findOrCreateRoom (e_roomId e) s1
      in joinRoom pa ra (e_spawn e) (e_now e) s2)"

definition onmessage :: "nat \<Rightarrow> Message \<Rightarrow> (nat \<Rightarrow> nat) \<Rightarrow> Server \<Rightarrow> Server" where
  "onmessage socket message draw s =
     (case map_of (playerMap s) socket of
        None \<Rightarrow> s
      | Some pa \<Rightarrow> processMessage pa message draw s)"

definition onclose :: "nat \<Rightarrow> Server \<Rightarrow> Server" where
  "onclose socket s =
     (case map_of (playerMap s) socket of
        None \<Rightarrow> s
      | Some pa \<Rightarrow>
          (let s1 = leaveRoom pa s in s1\<lparr>playerMap := AList.delete socket (playerMap s1)\<rparr>))"

text \<open>
  The events of the single-threaded event loop; each handler runs to completion. A timer
  fires only while its interval is active.
\<close>

datatype Event =
    Open nat Entropy
  | Recv nat Message "nat \<Rightarrow> nat"
  | Close nat
  | Tick nat int

fun step :: "Server \<Rightarrow> Event \<Rightarrow> Server" where
  "step s (Open socket e) = onopen socket e s"
| "step s (Recv socket message draw) = onmessage socket message draw s"
| "step s (Close socket) = onclose socket s"
| "step s (Tick ra now) = (if ra \<in> set (intervals s) then tick ra now s else s)"

definition run :: "Event list \<Rightarrow> Server" where
  "run events = foldl step init_server events"

section \<open>The Go server (src/goserver/main.go): the functions the claims cite\<close>

text \<open>
  Go's \<open>int\<close> coordinates are 64-bit words (\<open>-=\<close> and \<open>+=\<close> wrap); a score is only ever a
  count of cells and is kept as \<^typ>\<open>int\<close>. Pointers are heap addresses as above. The
  order in which \<open>range\<close> visits a map is not fixed by the language: every function that
  ranges over \<open>room.Players\<close> takes it as the argument \<open>ord\<close>, which permutes the entries.
\<close>

record GoPosition =
  g_X :: "64 word"
  g_Y :: "64 word"

record GoPlayer =
  g_ID :: string
  g_Name :: string
  g_Color :: string
  g_Score :: int
  g_Position :: GoPosition
  g_TargetPosition :: GoPosition
  g_Conn :: nat
  g_Room :: "nat option"

record GoGameState =
  g_Board :: Board
  g_Players :: "nat list"
  g_ChatMessages :: "string list"

record GoRoom =
  gr_ID :: string
  gr_Players :: "(string \<times> nat) list"
  gr_GameState :: GoGameState

text \<open>The \<open>Message\<close> struct after \<open>json.Unmarshal\<close>: a field the payload lacks is the empty string.\<close>

record GoMessage =
  gm_Type :: string
  gm_Direction :: string
  gm_Name :: string
  gm_ChatMessage :: string

text \<open>What \<open>WriteJSON\<close> puts on a connection; a winner is serialised as it is at that moment.\<close>

datatype GoOut =
    GoPlayerJoined string
  | GoPositionUpdate string "64 word" "64 word"
  | GoChat string string string
  | GoGameOver "GoPlayer option"

record GoServer =
  go_rooms :: "(string \<times> nat) list"
  go_room_heap :: "GoRoom list"
  go_player_heap :: "GoPlayer list"
  go_sent :: "(nat \<times> GoOut) list"

text \<open>A call either returns or panics on a nil \<open>*Room\<close>; both carry the state reached.\<close>

datatype 'a go_result = Returned 'a | Panicked 'a

definition playerSpeed_go :: "64 word" where
  "playerSpeed_go = 1"

definition upd_player_go :: "nat \<Rightarrow> (GoPlayer \<Rightarrow> GoPlayer) \<Rightarrow> GoServer \<Rightarrow> GoServer" where
  "upd_player_go a f s = s\<lparr>go_player_heap := (go_player_heap s)[a := f (go_player_heap s ! a)]\<rparr>"

definition upd_room_go :: "nat \<Rightarrow> (GoRoom \<Rightarrow> GoRoom) \<Rightarrow> GoServer \<Rightarrow> GoServer" where
  "upd_room_go a f s = s\<lparr>go_room_heap := (go_room_heap s)[a := f (go_room_heap s ! a)]\<rparr>"

definition updatePlayerPosition_go :: "GoPlayer \<Rightarrow> string \<Rightarrow> GoPlayer" where
  "updatePlayerPosition_go player direction =
     (let t = g_TargetPosition player;
          t' = (if direction = ''up'' then t\<lparr>g_Y := g_Y t - playerSpeed_go\<rparr>
                else if direction = ''down'' then t\<lparr>g_Y := g_Y t + playerSpeed_go\<rparr>
                else if direction = ''left'' then t\<lparr>g_X := g_X t - playerSpeed_go\<rparr>
                else if direction = ''right'' then t\<lparr>g_X := g_X t + playerSpeed_go\<rparr>
                else t)
      in player\<lparr>g_TargetPosition := t', g_Position := t'\<rparr>)"

definition broadcastMessage_go ::
  "((string \<times> nat) list \<Rightarrow> (string \<times> nat) list) \<Rightarrow> nat \<Rightarrow> GoOut \<Rightarrow> GoServer \<Rightarrow> GoServer" where
  "broadcastMessage_go ord ra msg s =
     s\<lparr>go_sent := go_sent s @
        map (\<lambda>(k, pa). (g_Conn (go_player_heap s ! pa), msg))
          (ord (gr_Players (go_room_heap s ! ra)))\<rparr>"

text \<open>
  \<open>processMessage\<close>: the payload is \<open>None\<close> when \<open>json.Unmarshal\<close> fails. \<open>room\<close> is read
  before the switch and dereferenced only by the move and chat cases. \<open>draw\<close> indexes the
  colour table for \<open>getRandomColor\<close>.
\<close>

definition getRandomColor_go :: "nat \<Rightarrow> string" where
  "getRandomColor_go draw =
     [''#f44336'', ''#e91e63'', ''#9c27b0'', ''#673ab7'', ''#3f51b5'', ''#2196f3'',
      ''#03a9f4'', ''#00bcd4'', ''#009688'', ''#4caf50'', ''#8bc34a'', ''#cddc39'',
      ''#ffeb3b'', ''#ffc107'', ''#ff9800'', ''#ff5722''] ! draw"

definition processMessage_go ::
  "((string \<times> nat) list \<Rightarrow> (string \<times> nat) list) \<Rightarrow> nat \<Rightarrow> GoMessage option \<Rightarrow> nat \<Rightarrow>
   GoServer \<Rightarrow> GoServer go_result" where
  "processMessage_go ord pa message draw s =
     (case message of
        None \<Rightarrow> Returned s
      | Some msg \<Rightarrow>
          (let room = g_Room (go_player_heap s ! pa) in
           if gm_Type msg = ''join'' then
             Returned (upd_player_go pa
               (\<lambda>p. p\<lparr>g_Name := gm_Name msg, g_Color := getRandomColor_go draw\<rparr>) s)
           else if gm_Type msg = ''move'' then
             (let s1 = upd_player_go pa (\<lambda>p. updatePlayerPosition_go p (gm_Direction msg)) s;
                  player = go_player_heap s1 ! pa
              in case room of
                   None \<Rightarrow> Panicked s1
                 | Some ra \<Rightarrow> Returned (broadcastMessage_go ord ra
                     (GoPositionUpdate (g_ID player) (g_X (g_Position player))
                        (g_Y (g_Position player))) s1))
           else if gm_Type msg = ''chat'' then
             (case room of
                None \<Rightarrow> Panicked s
              | Some ra \<Rightarrow>
                  (let player = go_player_heap s ! pa;
                       s1 = upd_room_go ra
                              (\<lambda>r. r\<lparr>gr_GameState := (gr_GameState r)
                                 \<lparr>g_ChatMessages := g_ChatMessages (gr_GameState r) @
                                    [g_Name player @ '': '' @ gm_ChatMessage msg]\<rparr>\<rparr>) s
                   in Returned (broadcastMessage_go ord ra
                        (GoChat (g_ID player) (g_Name player) (gm_ChatMessage msg)) s1)))
           else Returned s))"

text \<open>The loop of \<open>endGame\<close>: \<open>winner\<close> starts nil and \<open>maxScore\<close> starts at 0.\<close>

definition pickWinner_go :: "GoPlayer list \<Rightarrow> nat list \<Rightarrow> nat option" where
  "pickWinner_go heap players =
     fst (fold (\<lambda>player (winner, maxScore).
                  if g_Score (heap ! player) > maxScore
                  then (Some player, g_Score (heap ! player)) else (winner, maxScore))
            players (None, 0))"

definition endGame_go ::
  "((string \<times> nat) list \<Rightarrow> (string \<times> nat) list) \<Rightarrow>
   ((string \<times> nat) list \<Rightarrow> (string \<times> nat) list) \<Rightarrow> nat \<Rightarrow> GoServer \<Rightarrow> GoServer" where
  "endGame_go ord ord' ra s =
     (let room = go_room_heap s ! ra;
          winner = pickWinner_go (go_player_heap s) (map snd (ord (gr_Players room)));
          s1 = broadcastMessage_go ord' ra
                 (GoGameOver (map_option (\<lambda>pa. go_player_heap s ! pa) winner)) s
      in s1\<lparr>go_rooms := AList.delete (gr_ID room) (go_rooms s1)\<rparr>)"

section \<open>The invariant of the directory\<close>

text \<open>The session maps of all rooms, by address; every one holds at most \<open>maxPlayers\<close>
  sessions, and the directory points to rooms of the heap.\<close>

definition sessions :: "Server \<Rightarrow> (string \<times> nat) list list" where
  "sessions s = map r_players (room_heap s)"

definition directory_ok :: "Server \<Rightarrow> bool" where
  "directory_ok s =
     (list_all (\<lambda>members. length members \<le> maxPlayers) (sessions s) \<and>
      list_all (\<lambda>(k, ra). ra < length (sessions s)) (rooms s))"

section \<open>A sample run\<close>

text \<open>Two connections: \<open>A\<close> spawns at (0, 0), \<open>B\<close> at (10, 0); \<open>A\<close> opens room \<open>R\<close>.\<close>

definition entropyA :: Entropy where
  "entropyA = \<lparr>e_id = ''A'', e_color = (\<lambda>i. 0), e_position = (0, 0),
     e_targetPosition = (0, 0), e_roomId = ''R'', e_spawn = (\<lambda>k. (0, 0)), e_now = 0\<rparr>"

definition entropyB :: Entropy where
  "entropyB = \<lparr>e_id = ''B'', e_color = (\<lambda>i. 1), e_position = (0, 0),
     e_targetPosition = (0, 0), e_roomId = ''S'', e_spawn = (\<lambda>k. (0, 10)), e_now = 50\<rparr>"

definition playerA :: Player where
  "playerA = \<lparr>p_id = ''A'', p_name = [], p_color = ''#000000'', p_score = 0,
     p_position = \<lparr>pos_x = 0, pos_y = 0\<rparr>, p_targetPosition = \<lparr>pos_x = 0, pos_y = 0\<rparr>,
     p_moveStartTime = 0, p_socket = 1, p_room = Some 0\<rparr>"

definition playerB :: Player where
  "playerB = \<lparr>p_id = ''B'', p_name = [], p_color = ''#111111'', p_score = 0,
     p_position = \<lparr>pos_x = 10, pos_y = 0\<rparr>, p_targetPosition = \<lparr>pos_x = 10, pos_y = 0\<rparr>,
     p_moveStartTime = 0, p_socket = 2, p_room = Some 0\<rparr>"

definition roomR :: "(string \<times> nat) list \<Rightarrow> Board \<Rightarrow> Room" where
  "roomR members board = \<lparr>r_id = ''R'', r_players = members,
     r_gameState = \<lparr>gs_board = board, gs_players = [0], gs_chatMessages = []\<rparr>,
     r_duration = 180000, r_startTime = 0\<rparr>"

definition server1 :: Server where
  "server1 = \<lparr>rooms = [(''R'', 0)], playerMap = [(1, 0)],
     room_heap = [roomR [(''A'', 0)] createBoard], player_heap = [playerA],
     intervals = [0], sent = []\<rparr>"

definition server2 :: Server where
  "server2 = \<lparr>rooms = [(''R'', 0)], playerMap = [(1, 0), (2, 1)],
     room_heap = [roomR [(''A'', 0), (''B'', 1)]
        (claimInitialTerritory createBoard \<lparr>pos_x = 10, pos_y = 0\<rparr> ''#111111'')],
     player_heap = [playerA, playerB],
     intervals = [0], sent = [(1, PlayerJoined []), (2, PlayerJoined [])]\<rparr>"

definition server3 :: Server where
  "server3 = \<lparr>rooms = [(''R'', 0)], playerMap = [(1, 0), (2, 1)],
     room_heap = [roomR [(''A'', 0), (''B'', 1)]
        (claimCell (claimInitialTerritory createBoard \<lparr>pos_x = 10, pos_y = 0\<rparr> ''#111111'')
           \<lparr>pos_x = 0, pos_y = 0\<rparr> ''#000000'')],
     player_heap = [playerA\<lparr>p_score := 1\<rparr>, playerB],
     intervals = [0],
     sent = [(1, PlayerJoined []), (2, PlayerJoined []),
       (1, GameStateMsg
             (claimCell (claimInitialTerritory createBoard \<lparr>pos_x = 10, pos_y = 0\<rparr> ''#111111'')
                \<lparr>pos_x = 0, pos_y = 0\<rparr> ''#000000'')
             [playerData (playerA\<lparr>p_score := 1\<rparr>)] [] 179),
       (2, GameStateMsg
             (claimCell (claimInitialTerritory createBoard \<lparr>pos_x = 10, pos_y = 0\<rparr> ''#111111'')
                \<lparr>pos_x = 0, pos_y = 0\<rparr> ''#000000'')
             [playerData (playerA\<lparr>p_score := 1\<rparr>)] [] 179)]\<rparr>"

text \<open>A room whose tick scores two sessions, on a board that \<open>A\<close> owns entirely.\<close>

definition fullBoard :: Board where
  "fullBoard = replicate (nat boardSize) (replicate (nat boardSize) ''#000000'')"

definition server4 :: Server where
  "server4 = \<lparr>rooms = [(''R'', 0)], playerMap = [(1, 0), (2, 1)],
     room_heap = [\<lparr>r_id = ''R'', r_players = [(''A'', 0), (''B'', 1)],
        r_gameState = \<lparr>gs_board = fullBoard, gs_players = [0, 1], gs_chatMessages = []\<rparr>,
        r_duration = 180000, r_startTime = 0\<rparr>],
     player_heap = [playerA,
        playerB\<lparr>p_position := \<lparr>pos_x = 1, pos_y = 0\<rparr>,
                 p_targetPosition := \<lparr>pos_x = 1, pos_y = 0\<rparr>\<rparr>],
     intervals = [0], sent = []\<rparr>"

text \<open>A room of the Go server with one session, which has not scored.\<close>

definition goPlayer1 :: GoPlayer where
  "goPlayer1 = \<lparr>g_ID = ''a'', g_Name = [], g_Color = ''#f44336'', g_Score = 0,
     g_Position = \<lparr>g_X = 0, g_Y = 0\<rparr>, g_TargetPosition = \<lparr>g_X = 0, g_Y = 0\<rparr>,
     g_Conn = 1, g_Room = Some 0\<rparr>"

definition goServer1 :: GoServer where
  "goServer1 = \<lparr>go_rooms = [(''r'', 0)],
     go_room_heap = [\<lparr>gr_ID = ''r'', gr_Players = [(''a'', 0)],
        gr_GameState = \<lparr>g_Board = replicate 40 (replicate 40 []), g_Players = [0],
          g_ChatMessages = []\<rparr>\<rparr>],
     go_player_heap = [goPlayer1], go_sent = []\<rparr>"


definition pingMessage :: Message where
  "pingMessage = \<lparr>m_type = ''ping'', m_name = None, m_direction = None, m_speed = None,
     m_chatMessage = None\<rparr>"

text \<open>The state in which \<open>B\<close> has been created and is about to join the room of \<open>A\<close>.\<close>

definition server1B :: Server where
  "server1B = server1\<lparr>player_heap := [playerA, createPlayer 2 entropyB],
     playerMap := [(1, 0), (2, 1)]\<rparr>"

text \<open>After \<open>A\<close> has disconnected from the room it opened, \<open>B\<close> is the only session left.\<close>

definition server5 :: Server where
  "server5 = \<lparr>rooms = [(''R'', 0)], playerMap = [(2, 1)],
     room_heap = [roomR [(''B'', 1)]
        (claimInitialTerritory createBoard \<lparr>pos_x = 10, pos_y = 0\<rparr> ''#111111'')],
     player_heap = [playerA\<lparr>p_room := None\<rparr>, playerB],
     intervals = [0], sent = [(1, PlayerJoined []), (2, PlayerJoined [])]\<rparr>"

section \<open>Properties of the grid\<close>

lemma valid_in_range:
  "wf_board board \<Longrightarrow> isValidPosition p \<Longrightarrow>
     nat (pos_y p) < length board \<and> nat (pos_x p) < length (board ! nat (pos_y p))"
  by (auto simp: wf_board_def isValidPosition_def list_all_length)

lemma wf_createBoard: "wf_board createBoard"
  by (simp add: wf_board_def createBoard_def list_all_iff)

lemma wf_claimCell:
  assumes "wf_board board"
  shows "wf_board (claimCell board p c)"
proof (cases "isValidPosition p")
  case False
  then show ?thesis using assms by (simp add: claimCell_def)
next
  case True
  have "nat (pos_y p) < length board"
    using valid_in_range [OF assms True] by simp
  then show ?thesis
    using assms True by (simp add: wf_board_def claimCell_def list_all_length nth_list_update)
qed

lemma cell_claimCell_same:
  "wf_board board \<Longrightarrow> isValidPosition p \<Longrightarrow> cell (claimCell board p c) p = c"
  using valid_in_range [of board p] by (simp add: cell_def claimCell_def)

lemma nat_eq_valid:
  "isValidPosition p \<Longrightarrow> isValidPosition q \<Longrightarrow>
     nat (pos_x p) = nat (pos_x q) \<Longrightarrow> nat (pos_y p) = nat (pos_y q) \<Longrightarrow> p = (q::Position)"
  by (cases p, cases q) (auto simp: isValidPosition_def)

lemma cell_claimCell_other:
  assumes "wf_board board" and "isValidPosition q" and "q \<noteq> p"
  shows "cell (claimCell board p c) q = cell board q"
proof (cases "isValidPosition p")
  case False
  then show ?thesis by (simp add: claimCell_def)
next
  case True
  have py: "nat (pos_y p) < length board" and qy: "nat (pos_y q) < length board"
    using valid_in_range [OF assms(1) True] valid_in_range [OF assms(1) assms(2)] by simp_all
  show ?thesis
  proof (cases "nat (pos_y q) = nat (pos_y p)")
    case False
    then show ?thesis using True by (simp add: cell_def claimCell_def)
  next
    case same: True
    then have "nat (pos_x q) \<noteq> nat (pos_x p)"
      using nat_eq_valid [OF True assms(2)] assms(3) by auto
    then show ?thesis using True same py by (simp add: cell_def claimCell_def)
  qed
qed

lemma claimCell_invalid: "\<not> isValidPosition p \<Longrightarrow> claimCell board p c = board"
  by (simp add: claimCell_def)

lemma cell_createBoard:
  "isValidPosition p \<Longrightarrow> cell createBoard p = []"
  by (simp add: cell_def createBoard_def isValidPosition_def)

lemma wf_fullBoard: "wf_board fullBoard"
  by (simp add: wf_board_def fullBoard_def list_all_iff)

lemma cell_fullBoard: "isValidPosition p \<Longrightarrow> cell fullBoard p = ''#000000''"
  by (simp add: cell_def fullBoard_def isValidPosition_def)

section \<open>Counting cells\<close>

lemma fold_count_row:
  "fold (\<lambda>c count. if c = color then count + 1 else count) row (n::int) =
     n + (\<Sum>c\<leftarrow>row. if c = color then 1 else 0)"
  by (induction row arbitrary: n) auto

lemma fold_count_rows:
  "fold (\<lambda>row count. fold (\<lambda>c count. if c = color then count + 1 else count) row count)
     board (n::int) = n + (\<Sum>row\<leftarrow>board. \<Sum>c\<leftarrow>row. if c = color then 1 else 0)"
  by (induction board arbitrary: n) (auto simp: fold_count_row)

lemma countPlayerSquares_sum:
  "countPlayerSquares board color = (\<Sum>row\<leftarrow>board. \<Sum>c\<leftarrow>row. if c = color then 1 else 0)"
  by (simp add: countPlayerSquares_def fold_count_rows)

lemma sum_list_map_update:
  fixes f :: "'a \<Rightarrow> int"
  shows "i < length xs \<Longrightarrow>
     sum_list (map f (xs[i := y])) = sum_list (map f xs) - f (xs ! i) + f y"
proof (induction xs arbitrary: i)
  case Nil
  then show ?case by simp
next
  case (Cons x xs)
  then show ?case by (cases i) auto
qed

lemma countPlayerSquares_claimCell:
  assumes "wf_board board" and "isValidPosition p"
  shows "countPlayerSquares (claimCell board p c) color =
           countPlayerSquares board color - (if cell board p = color then 1 else 0)
             + (if c = color then 1 else 0)"
proof -
  have r: "nat (pos_y p) < length board" "nat (pos_x p) < length (board ! nat (pos_y p))"
    using valid_in_range [OF assms] by simp_all
  show ?thesis
    using assms(2) r
    by (simp add: countPlayerSquares_sum claimCell_def cell_def sum_list_map_update)
qed

lemma countPlayerSquares_replicate:
  "countPlayerSquares (replicate n (replicate m c)) color = (if c = color then int n * int m else 0)"
  by (simp add: countPlayerSquares_sum sum_list_replicate)

lemma countPlayerSquares_createBoard:
  "color \<noteq> [] \<Longrightarrow> countPlayerSquares createBoard color = 0"
  by (auto simp: createBoard_def countPlayerSquares_replicate)

lemma countPlayerSquares_fullBoard:
  "countPlayerSquares fullBoard color = (if color = ''#000000'' then 2500 else 0)"
  by (simp add: fullBoard_def countPlayerSquares_replicate boardSize_def)

lemma countPlayerSquares_nonneg: "0 \<le> countPlayerSquares board color"
  by (auto simp: countPlayerSquares_sum intro!: sum_list_nonneg)

lemma row_count_card:
  "(\<Sum>c\<leftarrow>row. if c = color then 1 else 0) = int (card {j. j < length row \<and> row ! j = color})"
proof -
  have "(\<Sum>c\<leftarrow>row. if c = color then 1 else 0) = int (length (filter (\<lambda>c. c = color) row))"
    by (induction row) auto
  then show ?thesis by (simp add: length_filter_conv_card)
qed

text \<open>\<open>countPlayerSquares\<close> returns the number of cells of the board that hold the colour.\<close>

lemma countPlayerSquares_card:
  "countPlayerSquares board color =
     int (card {(i, j). i < length board \<and> j < length (board ! i) \<and> board ! i ! j = color})"
proof -
  let ?B = "\<lambda>i. {j. j < length (board ! i) \<and> board ! i ! j = color}"
  have "{(i, j). i < length board \<and> j < length (board ! i) \<and> board ! i ! j = color} =
          (SIGMA i:{..<length board}. ?B i)"
    by auto
  moreover have "card (SIGMA i:{..<length board}. ?B i) = (\<Sum>i\<in>{..<length board}. card (?B i))"
    by (rule card_SigmaI) auto
  moreover have "countPlayerSquares board color = (\<Sum>i\<in>{..<length board}. int (card (?B i)))"
    unfolding countPlayerSquares_sum row_count_card
    by (simp add: sum_list_sum_nth atLeast0LessThan)
  ultimately show ?thesis by simp
qed

text \<open>
  On one board, the counts of pairwise distinct colours never add up to more than the
  number of cells: a cell holds one colour.
\<close>

lemma count_absent:
  "c \<notin> set colors \<Longrightarrow> (\<Sum>color\<leftarrow>colors. if c = color then 1 else 0) = (0::int)"
  by (induction colors) auto

lemma count_le_one:
  "distinct colors \<Longrightarrow> (\<Sum>color\<leftarrow>colors. if c = color then 1 else 0) \<le> (1::int)"
  by (induction colors) (auto simp: count_absent)

lemma row_counts_bounded:
  "distinct colors \<Longrightarrow>
     (\<Sum>color\<leftarrow>colors. \<Sum>c\<leftarrow>row. if c = color then 1 else 0) \<le> int (length row)"
proof (induction row)
  case Nil
  then show ?case by simp
next
  case (Cons c row)
  have "(\<Sum>color\<leftarrow>colors. \<Sum>c\<leftarrow>c # row. if c = color then 1 else 0) =
          (\<Sum>color\<leftarrow>colors. if c = color then 1 else 0) +
          (\<Sum>color\<leftarrow>colors. \<Sum>c\<leftarrow>row. if c = color then 1 else (0::int))"
    by (simp add: sum_list_addf)
  then show ?case
    using Cons.IH [OF Cons.prems] count_le_one [OF Cons.prems, of c] by simp
qed

lemma counts_bounded:
  "distinct colors \<Longrightarrow>
     (\<Sum>color\<leftarrow>colors. countPlayerSquares board color) \<le> (\<Sum>row\<leftarrow>board. int (length row))"
proof (induction board)
  case Nil
  then show ?case by (simp add: countPlayerSquares_sum)
next
  case (Cons row board)
  have "(\<Sum>color\<leftarrow>colors. countPlayerSquares (row # board) color) =
          (\<Sum>color\<leftarrow>colors. \<Sum>c\<leftarrow>row. if c = color then 1 else 0) +
          (\<Sum>color\<leftarrow>colors. countPlayerSquares board color)"
    by (simp add: countPlayerSquares_sum sum_list_addf)
  then show ?case
    using Cons.IH [OF Cons.prems] row_counts_bounded [OF Cons.prems, of row] by simp
qed

lemma counts_bounded_board:
  assumes "distinct colors" and "wf_board board"
  shows "(\<Sum>color\<leftarrow>colors. countPlayerSquares board color) \<le> boardSize * boardSize"
proof -
  have "map (\<lambda>row. int (length row)) board = replicate (nat boardSize) boardSize"
    using assms(2)
    by (auto simp: wf_board_def list_all_length boardSize_def intro!: nth_equalityI)
  then have "(\<Sum>row\<leftarrow>board. int (length row)) = boardSize * boardSize"
    by (simp add: sum_list_replicate boardSize_def)
  then show ?thesis using counts_bounded [OF assms(1), of board] by simp
qed

section \<open>The initial claim\<close>

lemma wf_fold_claimCell:
  "wf_board board \<Longrightarrow> wf_board (fold (\<lambda>p b. claimCell b p c) ps board)"
  by (induction ps arbitrary: board) (simp_all add: wf_claimCell)

lemma cell_fold_claimCell:
  assumes "isValidPosition q"
  shows "wf_board board \<Longrightarrow>
     cell (fold (\<lambda>p b. claimCell b p c) ps board) q = (if q \<in> set ps then c else cell board q)"
proof (induction ps arbitrary: board)
  case Nil
  then show ?case by simp
next
  case (Cons p ps)
  have IH: "cell (fold (\<lambda>p b. claimCell b p c) ps (claimCell board p c)) q =
              (if q \<in> set ps then c else cell (claimCell board p c) q)"
    using Cons.IH [OF wf_claimCell [OF Cons.prems]] .
  show ?case
  proof (cases "q = p")
    case True
    have "cell (claimCell board p c) q = c"
      using cell_claimCell_same [OF Cons.prems assms, of c] True by simp
    then show ?thesis using IH True by simp
  next
    case False
    have "cell (claimCell board p c) q = cell board q"
      using cell_claimCell_other [OF Cons.prems assms False, of c] .
    then show ?thesis using IH False by simp
  qed
qed

lemma wf_claimInitialTerritory:
  "wf_board board \<Longrightarrow> wf_board (claimInitialTerritory board position color)"
  by (simp only: claimInitialTerritory_def Let_def wf_fold_claimCell)

lemma cell_claimInitialTerritory:
  assumes "wf_board board" and "isValidPosition q"
  shows "cell (claimInitialTerritory board position color) q =
     (if \<bar>pos_x q - pos_x position\<bar> \<le> 1 \<and> \<bar>pos_y q - pos_y position\<bar> \<le> 1
      then color else cell board q)"
proof -
  have near: "\<bar>a - b\<bar> \<le> 1 \<longleftrightarrow> a = b \<or> a = b - 1 \<or> a = b + 1" for a b :: int
    by arith
  have "q \<in> set [\<lparr>pos_x = pos_x position, pos_y = pos_y position\<rparr>,
             \<lparr>pos_x = pos_x position - 1, pos_y = pos_y position\<rparr>,
             \<lparr>pos_x = pos_x position + 1, pos_y = pos_y position\<rparr>,
             \<lparr>pos_x = pos_x position, pos_y = pos_y position - 1\<rparr>,
             \<lparr>pos_x = pos_x position, pos_y = pos_y position + 1\<rparr>,
             \<lparr>pos_x = pos_x position - 1, pos_y = pos_y position - 1\<rparr>,
             \<lparr>pos_x = pos_x position - 1, pos_y = pos_y position + 1\<rparr>,
             \<lparr>pos_x = pos_x position + 1, pos_y = pos_y position - 1\<rparr>,
             \<lparr>pos_x = pos_x position + 1, pos_y = pos_y position + 1\<rparr>]
        \<longleftrightarrow> \<bar>pos_x q - pos_x position\<bar> \<le> 1 \<and> \<bar>pos_y q - pos_y position\<bar> \<le> 1"
    unfolding near by (cases q) (simp, blast)
  then show ?thesis
    using cell_fold_claimCell [OF assms(2) assms(1)]
    by (simp only: claimInitialTerritory_def Let_def)
qed

section \<open>Properties of the heaps\<close>

lemma upd_player_fields [simp]:
  "rooms (upd_player a f s) = rooms s"
  "playerMap (upd_player a f s) = playerMap s"
  "room_heap (upd_player a f s) = room_heap s"
  "intervals (upd_player a f s) = intervals s"
  "sent (upd_player a f s) = sent s"
  "length (player_heap (upd_player a f s)) = length (player_heap s)"
  by (simp_all add: upd_player_def)

lemma upd_room_fields [simp]:
  "rooms (upd_room a f s) = rooms s"
  "playerMap (upd_room a f s) = playerMap s"
  "player_heap (upd_room a f s) = player_heap s"
  "intervals (upd_room a f s) = intervals s"
  "sent (upd_room a f s) = sent s"
  "length (room_heap (upd_room a f s)) = length (room_heap s)"
  by (simp_all add: upd_room_def)

lemma upd_player_same [simp]:
  "a < length (player_heap s) \<Longrightarrow> player_heap (upd_player a f s) ! a = f (player_heap s ! a)"
  by (simp add: upd_player_def)

lemma upd_player_other [simp]:
  "b \<noteq> a \<Longrightarrow> player_heap (upd_player a f s) ! b = player_heap s ! b"
  by (simp add: upd_player_def)

lemma upd_room_same [simp]:
  "a < length (room_heap s) \<Longrightarrow> room_heap (upd_room a f s) ! a = f (room_heap s ! a)"
  by (simp add: upd_room_def)

lemma upd_room_other [simp]:
  "b \<noteq> a \<Longrightarrow> room_heap (upd_room a f s) ! b = room_heap s ! b"
  by (simp add: upd_room_def)

lemma broadcastMessage_fields [simp]:
  "rooms (broadcastMessage ra msg s) = rooms s"
  "playerMap (broadcastMessage ra msg s) = playerMap s"
  "player_heap (broadcastMessage ra msg s) = player_heap s"
  "room_heap (broadcastMessage ra msg s) = room_heap s"
  "intervals (broadcastMessage ra msg s) = intervals s"
  by (simp_all add: broadcastMessage_def)

lemma broadcastGameState_fields [simp]:
  "rooms (broadcastGameState ra t s) = rooms s"
  "playerMap (broadcastGameState ra t s) = playerMap s"
  "player_heap (broadcastGameState ra t s) = player_heap s"
  "room_heap (broadcastGameState ra t s) = room_heap s"
  "intervals (broadcastGameState ra t s) = intervals s"
  by (simp_all add: broadcastGameState_def Let_def)

lemma set_board_fields [simp]:
  "r_players (set_board b r) = r_players r"
  "r_id (set_board b r) = r_id r"
  "r_duration (set_board b r) = r_duration r"
  "r_startTime (set_board b r) = r_startTime r"
  "gs_board (r_gameState (set_board b r)) = b"
  "gs_players (r_gameState (set_board b r)) = gs_players (r_gameState r)"
  "gs_chatMessages (r_gameState (set_board b r)) = gs_chatMessages (r_gameState r)"
  by (simp_all add: set_board_def)

lemma upd_player_go_fields [simp]:
  "go_rooms (upd_player_go a f s) = go_rooms s"
  "go_room_heap (upd_player_go a f s) = go_room_heap s"
  "go_sent (upd_player_go a f s) = go_sent s"
  "length (go_player_heap (upd_player_go a f s)) = length (go_player_heap s)"
  by (simp_all add: upd_player_go_def)

lemma upd_player_go_same [simp]:
  "a < length (go_player_heap s) \<Longrightarrow>
     go_player_heap (upd_player_go a f s) ! a = f (go_player_heap s ! a)"
  by (simp add: upd_player_go_def)

lemma broadcastMessage_go_fields [simp]:
  "go_rooms (broadcastMessage_go ord ra msg s) = go_rooms s"
  "go_room_heap (broadcastMessage_go ord ra msg s) = go_room_heap s"
  "go_player_heap (broadcastMessage_go ord ra msg s) = go_player_heap s"
  by (simp_all add: broadcastMessage_go_def)

section \<open>The sample run, evaluated\<close>

lemma colorA: "getRandomColor (\<lambda>i. 0) = ''#000000''"
  by (simp add: getRandomColor_def upt_rec)

lemma colorB: "getRandomColor (\<lambda>i. 1) = ''#111111''"
  by (simp add: getRandomColor_def upt_rec)

lemma run_server1: "run [Open 1 entropyA] = server1"
  by (simp add: run_def init_server_def onopen_def createPlayer_def entropyA_def colorA
      getRandomPosition_def findOrCreateRoom_def createRoom_def joinRoom_def upd_player_def
      upd_room_def startGame_def maxPlayers_def gameDuration_def server1_def roomR_def
      playerA_def Let_def)

lemma run_server2_step: "onopen 2 entropyB server1 = server2"
  by (simp add: onopen_def createPlayer_def entropyB_def colorB [unfolded One_nat_def]
      getRandomPosition_def findOrCreateRoom_def joinRoom_def upd_player_def
      upd_room_def maxPlayers_def server1_def server2_def roomR_def
      playerA_def playerB_def Let_def broadcastMessage_def set_board_def)

lemma run_server2: "run [Open 1 entropyA, Open 2 entropyB] = server2"
  using run_server1 run_server2_step by (simp add: run_def)

lemma countPlayerSquares_server3:
  "countPlayerSquares
     (claimCell (claimInitialTerritory createBoard \<lparr>pos_x = 10, pos_y = 0\<rparr> ''#111111'')
        \<lparr>pos_x = 0, pos_y = 0\<rparr> ''#000000'') ''#111111'' = 6"
  "countPlayerSquares
     (claimCell (claimInitialTerritory createBoard \<lparr>pos_x = 10, pos_y = 0\<rparr> ''#111111'')
        \<lparr>pos_x = 0, pos_y = 0\<rparr> ''#000000'') ''#000000'' = 1"
  by (simp_all add: claimInitialTerritory_def countPlayerSquares_claimCell wf_claimCell
      wf_createBoard cell_claimCell_same cell_claimCell_other cell_createBoard claimCell_invalid
      countPlayerSquares_createBoard isValidPosition_def boardSize_def)

lemma tick_server2: "tick 0 100 server2 = server3"
  by (simp add: tick_def updateGame_def server2_def server3_def roomR_def playerA_def
      playerB_def upd_player_def upd_room_def set_board_def broadcastGameState_def Let_def
      countPlayerSquares_server3)

lemma run_server3: "run [Open 1 entropyA, Open 2 entropyB, Tick 0 100] = server3"
proof -
  have "run [Open 1 entropyA, Open 2 entropyB, Tick 0 100] =
          step (run [Open 1 entropyA, Open 2 entropyB]) (Tick 0 100)"
    by (simp add: run_def)
  also have "\<dots> = tick 0 100 server2"
    unfolding run_server2 by (simp add: server2_def)
  finally show ?thesis by (simp add: tick_server2)
qed

lemma close_server2: "onclose 1 server2 = server5"
  by (simp add: onclose_def leaveRoom_def server2_def server5_def roomR_def playerA_def
      playerB_def upd_player_def upd_room_def Let_def)

lemma run_server5: "run [Open 1 entropyA, Open 2 entropyB, Close 1] = server5"
proof -
  have "run [Open 1 entropyA, Open 2 entropyB, Close 1] =
          step (run [Open 1 entropyA, Open 2 entropyB]) (Close 1)"
    by (simp add: run_def)
  also have "\<dots> = onclose 1 server2"
    unfolding run_server2 by simp
  also have "\<dots> = server5"
    by (rule close_server2)
  finally show ?thesis .
qed

lemma tick_server5:
  "rooms (tick 0 180000 server5) = []"
  "intervals (tick 0 180000 server5) = []"
  "take 3 (sent (tick 0 180000 server5)) =
     [(1, PlayerJoined []), (2, PlayerJoined []),
      (2, GameOver (Some (playerData (playerA\<lparr>p_score := 1, p_room := None\<rparr>))))]"
  "p_score (player_heap (tick 0 180000 server5) ! 1) = 0"
  by (simp_all add: tick_def updateGame_def endGame_def pickWinner_def server5_def roomR_def
      playerA_def playerB_def upd_player_def upd_room_def set_board_def broadcastGameState_def
      broadcastMessage_def playerData_def Let_def countPlayerSquares_server3)

lemma updateGame_server4:
  "player_heap (updateGame 0 server4) =
     [playerA\<lparr>p_score := 2500\<rparr>,
      playerB\<lparr>p_position := \<lparr>pos_x = 1, pos_y = 0\<rparr>,
               p_targetPosition := \<lparr>pos_x = 1, pos_y = 0\<rparr>, p_score := 1\<rparr>]"
  "gs_board (r_gameState (room_heap (updateGame 0 server4) ! 0)) =
     claimCell (claimCell fullBoard \<lparr>pos_x = 0, pos_y = 0\<rparr> ''#000000'')
       \<lparr>pos_x = 1, pos_y = 0\<rparr> ''#111111''"
  by (simp_all add: updateGame_def server4_def playerA_def playerB_def upd_player_def
      upd_room_def set_board_def Let_def countPlayerSquares_claimCell wf_claimCell wf_fullBoard
      cell_claimCell_other cell_fullBoard countPlayerSquares_fullBoard isValidPosition_def
      boardSize_def)

text \<open>
  The Go server, on a room whose only session has score 0: \<open>endGame\<close> starts \<open>maxScore\<close>
  at 0 and asks for a strictly greater score, so it names nobody. The Deno server's
  \<open>reduce\<close>, on a single session of score 0, names that session.
\<close>

lemma endGame_go_goServer1:
  "gr_Players (go_room_heap goServer1 ! 0) = [(''a'', 0)] \<and>
   g_Score (go_player_heap goServer1 ! 0) = 0 \<and>
   pickWinner_go (go_player_heap goServer1) (map snd (gr_Players (go_room_heap goServer1 ! 0)))
     = None \<and>
   go_sent (endGame_go (\<lambda>m. m) (\<lambda>m. m) 0 goServer1) = [(1, GoGameOver None)] \<and>
   go_rooms (endGame_go (\<lambda>m. m) (\<lambda>m. m) 0 goServer1) = [] \<and>
   p_score playerA = 0 \<and> pickWinner [playerA] [0] = Some 0"
  by (simp add: endGame_go_def pickWinner_go_def broadcastMessage_go_def goServer1_def
      goPlayer1_def pickWinner_def playerA_def Let_def)

section \<open>Spawn positions\<close>

text \<open>
  C9. Every position \<open>getRandomPosition\<close> returns, for a coordinate draw in
  \<open>[0, boardSize)\<close> and any side draw, is inside the grid and on its border: its
  \<open>x\<close> is 0 or \<open>boardSize - 1\<close>, or its \<open>y\<close> is 0 or \<open>boardSize - 1\<close>.
\<close>

theorem getRandomPosition_edge:
  assumes "0 \<le> r" and "r < boardSize"
  shows "isValidPosition (getRandomPosition (side, r)) \<and>
         (pos_x (getRandomPosition (side, r)) = 0 \<or>
          pos_x (getRandomPosition (side, r)) = boardSize - 1 \<or>
          pos_y (getRandomPosition (side, r)) = 0 \<or>
          pos_y (getRandomPosition (side, r)) = boardSize - 1)"
  using assms by (simp add: getRandomPosition_def isValidPosition_def boardSize_def)

theorem getRandomPosition_edge_witness:
  "isValidPosition (getRandomPosition (1, 7)) \<and>
   pos_x (getRandomPosition (1, 7)) = 49 \<and> pos_y (getRandomPosition (1, 7)) = 7"
  using getRandomPosition_edge [of 7 1]
  by (simp add: getRandomPosition_def boardSize_def)

section \<open>Claims on single cells\<close>



section \<open>Joining\<close>

lemma length_update_new:
  "map_of al k = None \<Longrightarrow> length (AList.update k v al) = Suc (length al)"
  by (induction al) auto

lemma length_update_le: "length (AList.update k v al) \<le> Suc (length al)"
  by (induction al) auto

text \<open>
  C4. When a session that is not yet a member joins a room that has one, \<open>joinRoom\<close> draws
  a spawn point and sets to the joiner's colour every cell of the board within one step
  of it in both coordinates (the spawn cell and its neighbours that exist on the board),
  whatever their owner was; every other cell keeps its owner, the board keeps its
  dimensions and the other rooms are untouched.
\<close>

theorem joinRoom_claims_block:
  assumes "ra < length (room_heap s)" and "pa < length (player_heap s)"
    and "wf_board (gs_board (r_gameState (room_heap s ! ra)))"
    and "r_players (room_heap s ! ra) \<noteq> []"
    and "map_of (r_players (room_heap s ! ra)) (p_id (player_heap s ! pa)) = None"
  shows "p_position (player_heap (joinRoom pa ra rnd now s) ! pa) = getRandomPosition (rnd 0) \<and>
         wf_board (gs_board (r_gameState (room_heap (joinRoom pa ra rnd now s) ! ra))) \<and>
         (\<forall>q. isValidPosition q \<longrightarrow>
            cell (gs_board (r_gameState (room_heap (joinRoom pa ra rnd now s) ! ra))) q =
              (if \<bar>pos_x q - pos_x (getRandomPosition (rnd 0))\<bar> \<le> 1 \<and>
                  \<bar>pos_y q - pos_y (getRandomPosition (rnd 0))\<bar> \<le> 1
               then p_color (player_heap s ! pa)
               else cell (gs_board (r_gameState (room_heap s ! ra))) q)) \<and>
         (\<forall>a. a \<noteq> ra \<longrightarrow> room_heap (joinRoom pa ra rnd now s) ! a = room_heap s ! a)"
proof -
  have n: "length (AList.update (p_id (player_heap s ! pa)) pa (r_players (room_heap s ! ra))) \<noteq> 1"
    using assms(4) length_update_new [OF assms(5), of pa]
    by (cases "r_players (room_heap s ! ra)") simp_all
  have b: "gs_board (r_gameState (room_heap (joinRoom pa ra rnd now s) ! ra)) =
             claimInitialTerritory (gs_board (r_gameState (room_heap s ! ra)))
               (getRandomPosition (rnd 0)) (p_color (player_heap s ! pa))"
    using assms(1,2) n by (simp add: joinRoom_def Let_def)
  have p: "p_position (player_heap (joinRoom pa ra rnd now s) ! pa) = getRandomPosition (rnd 0)"
    using assms(1,2) n by (simp add: joinRoom_def Let_def)
  have o: "\<forall>a. a \<noteq> ra \<longrightarrow> room_heap (joinRoom pa ra rnd now s) ! a = room_heap s ! a"
    using assms(1,2) n by (simp add: joinRoom_def Let_def)
  show ?thesis
    unfolding b using p o assms(3)
    by (simp add: wf_claimInitialTerritory cell_claimInitialTerritory)
qed

theorem joinRoom_claims_block_witness:
  "r_players (room_heap server1B ! 0) \<noteq> [] \<and>
   map_of (r_players (room_heap server1B ! 0)) (p_id (player_heap server1B ! 1)) = None \<and>
   wf_board (gs_board (r_gameState (room_heap server1B ! 0))) \<and>
   p_position (player_heap (joinRoom 1 0 (e_spawn entropyB) 50 server1B) ! 1) =
     \<lparr>pos_x = 10, pos_y = 0\<rparr> \<and>
   cell (gs_board (r_gameState (room_heap (joinRoom 1 0 (e_spawn entropyB) 50 server1B) ! 0)))
     \<lparr>pos_x = 9, pos_y = 1\<rparr> = ''#111111'' \<and>
   cell (gs_board (r_gameState (room_heap (joinRoom 1 0 (e_spawn entropyB) 50 server1B) ! 0)))
     \<lparr>pos_x = 12, pos_y = 0\<rparr> = []"
proof -
  have h: "0 < length (room_heap server1B)" "1 < length (player_heap server1B)"
    "wf_board (gs_board (r_gameState (room_heap server1B ! 0)))"
    "r_players (room_heap server1B ! 0) \<noteq> []"
    "map_of (r_players (room_heap server1B ! 0)) (p_id (player_heap server1B ! 1)) = None"
    by (simp_all add: server1B_def server1_def roomR_def createPlayer_def entropyB_def
        wf_createBoard)
  have v: "isValidPosition \<lparr>pos_x = 9, pos_y = 1\<rparr>" "isValidPosition \<lparr>pos_x = 12, pos_y = 0\<rparr>"
    by (simp_all add: isValidPosition_def boardSize_def)
  have c: "p_color (player_heap server1B ! Suc 0) = ''#111111''"
    "gs_board (r_gameState (room_heap server1B ! 0)) = createBoard"
    "getRandomPosition (e_spawn entropyB 0) = \<lparr>pos_x = 10, pos_y = 0\<rparr>"
    by (simp_all add: server1B_def server1_def roomR_def createPlayer_def entropyB_def
        colorB [unfolded One_nat_def] getRandomPosition_def)
  show ?thesis
    using joinRoom_claims_block [OF h, of "e_spawn entropyB" 50] h(3,4,5) v
    by (simp add: c cell_createBoard)
qed

section \<open>Scores\<close>

text \<open>With one session in the scored list, the tick leaves it with the exact count.\<close>

lemma updateGame_single_exact:
  assumes "ra < length (room_heap s)" and "pa < length (player_heap s)"
    and "gs_players (r_gameState (room_heap s ! ra)) = [pa]"
  shows "p_score (player_heap (updateGame ra s) ! pa) =
           countPlayerSquares (gs_board (r_gameState (room_heap (updateGame ra s) ! ra)))
             (p_color (player_heap (updateGame ra s) ! pa))"
  using assms by (simp add: updateGame_def Let_def)

text \<open>
  C1, evaluated. \<open>A\<close> connects and opens a room, \<open>B\<close> connects and joins it, claiming the
  six cells of its 3 by 3 block that are on the board; the timer fires once. \<open>B\<close> is a
  session of the room and owns six cells, and its score after the tick is still 0:
  \<open>joinRoom\<close> never appends a joining player to \<open>gameState.players\<close>, the list the tick
  scores.
\<close>

theorem joined_session_never_scored:
  "map_of (r_players (room_heap (run [Open 1 entropyA, Open 2 entropyB, Tick 0 100]) ! 0)) ''B''
     = Some 1 \<and>
   p_color (player_heap (run [Open 1 entropyA, Open 2 entropyB, Tick 0 100]) ! 1) = ''#111111'' \<and>
   p_score (player_heap (run [Open 1 entropyA, Open 2 entropyB, Tick 0 100]) ! 1) = 0 \<and>
   countPlayerSquares
     (gs_board (r_gameState (room_heap (run [Open 1 entropyA, Open 2 entropyB, Tick 0 100]) ! 0)))
     ''#111111'' = 6"
  unfolding run_server3
  by (simp add: server3_def roomR_def playerB_def countPlayerSquares_server3)


text \<open>
  A second pass of \<open>updateGame\<close> over the same room, with no message in between, lowers the
  score of \<open>A\<close> from 2500 to 2499: the first pass counted \<open>A\<close> before \<open>B\<close> took cell (1, 0).
\<close>

lemma updateGame_twice_server4:
  "p_score (player_heap (updateGame 0 server4) ! 0) = 2500"
  "p_score (player_heap (updateGame 0 (updateGame 0 server4)) ! 0) = 2499"
proof -
  let ?b = "claimCell (claimCell fullBoard \<lparr>pos_x = 0, pos_y = 0\<rparr> ''#000000'')
              \<lparr>pos_x = 1, pos_y = 0\<rparr> ''#111111''"
  have s: "updateGame 0 server4 = server4\<lparr>
      room_heap := [\<lparr>r_id = ''R'', r_players = [(''A'', 0), (''B'', 1)],
        r_gameState = \<lparr>gs_board = ?b, gs_players = [0, 1], gs_chatMessages = []\<rparr>,
        r_duration = 180000, r_startTime = 0\<rparr>],
      player_heap := [playerA\<lparr>p_score := 2500\<rparr>,
        playerB\<lparr>p_position := \<lparr>pos_x = 1, pos_y = 0\<rparr>,
                 p_targetPosition := \<lparr>pos_x = 1, pos_y = 0\<rparr>, p_score := 1\<rparr>]\<rparr>"
    by (simp add: updateGame_def server4_def playerA_def playerB_def upd_player_def
      upd_room_def set_board_def Let_def countPlayerSquares_claimCell wf_claimCell wf_fullBoard
      cell_claimCell_other cell_fullBoard countPlayerSquares_fullBoard isValidPosition_def
      boardSize_def)
  show "p_score (player_heap (updateGame 0 server4) ! 0) = 2500"
    by (simp add: updateGame_server4)
  show "p_score (player_heap (updateGame 0 (updateGame 0 server4)) ! 0) = 2499"
    unfolding s
    by (simp add: updateGame_def server4_def playerA_def playerB_def upd_player_def
      upd_room_def set_board_def Let_def countPlayerSquares_claimCell wf_claimCell wf_fullBoard
      cell_claimCell_other cell_claimCell_same cell_fullBoard countPlayerSquares_fullBoard
      isValidPosition_def boardSize_def)
qed

section \<open>Messages\<close>




text \<open>
  C8. A message whose type is none of join, move, stop and chat changes nothing: the
  handler returns the state it was given (grid, sessions, chat log, the player, the
  registration of its socket, and nothing is sent). In the Go server \<open>processMessage\<close>
  returns normally with the state unchanged, also when the payload does not unmarshal, so
  the read loop of the connection goes on.
\<close>

theorem unknown_type_ignored:
  "(m_type message \<notin> set [''join'', ''move'', ''stop'', ''chat''] \<longrightarrow>
      processMessage pa message draw s = s \<and> onmessage socket message draw s = s) \<and>
   (gm_Type msg \<notin> set [''join'', ''move'', ''chat''] \<longrightarrow>
      processMessage_go ord pa (Some msg) n g = Returned g) \<and>
   processMessage_go ord pa None n g = Returned g"
  by (simp add: processMessage_def onmessage_def processMessage_go_def Let_def
      split: option.split)

theorem unknown_type_ignored_witness:
  "m_type pingMessage \<notin> set [''join'', ''move'', ''stop'', ''chat''] \<and>
   map_of (playerMap server2) 2 = Some 1 \<and>
   onmessage 2 pingMessage (\<lambda>i. 0) server2 = server2 \<and>
   processMessage_go (\<lambda>m. m) 0
     (Some \<lparr>gm_Type = ''stop'', gm_Direction = [], gm_Name = [], gm_ChatMessage = []\<rparr>)
     0 goServer1 = Returned goServer1"
  using unknown_type_ignored [where message = pingMessage and socket = 2 and s = server2
      and draw = "\<lambda>i. 0" and ord = "\<lambda>m. m" and pa = 0 and n = 0 and g = goServer1
      and msg = "\<lparr>gm_Type = ''stop'', gm_Direction = [], gm_Name = [], gm_ChatMessage = []\<rparr>"]
  by (simp add: pingMessage_def server2_def)

section \<open>Leaving\<close>

text \<open>
  C7. \<open>leaveRoom\<close> deletes the leaving session, and only it, from the session map of its
  room; the game state of the room (grid, scored list, chat log) and every other room stay
  as they were. When that leaves the room without sessions, its id is deleted from the
  directory, whatever its clock says; otherwise the directory is unchanged.
\<close>

theorem leaveRoom_removes_session:
  assumes "p_room (player_heap s ! pa) = Some ra" and "ra < length (room_heap s)"
  shows "r_players (room_heap (leaveRoom pa s) ! ra) =
           AList.delete (p_id (player_heap s ! pa)) (r_players (room_heap s ! ra)) \<and>
         map_of (r_players (room_heap (leaveRoom pa s) ! ra)) =
           (map_of (r_players (room_heap s ! ra)))(p_id (player_heap s ! pa) := None) \<and>
         r_gameState (room_heap (leaveRoom pa s) ! ra) = r_gameState (room_heap s ! ra) \<and>
         (\<forall>a. a \<noteq> ra \<longrightarrow> room_heap (leaveRoom pa s) ! a = room_heap s ! a) \<and>
         (r_players (room_heap (leaveRoom pa s) ! ra) = [] \<longrightarrow>
            rooms (leaveRoom pa s) = AList.delete (r_id (room_heap s ! ra)) (rooms s) \<and>
            map_of (rooms (leaveRoom pa s)) (r_id (room_heap s ! ra)) = None) \<and>
         (r_players (room_heap (leaveRoom pa s) ! ra) \<noteq> [] \<longrightarrow>
            rooms (leaveRoom pa s) = rooms s)"
proof -
  have pl: "r_players (room_heap (leaveRoom pa s) ! ra) =
              AList.delete (p_id (player_heap s ! pa)) (r_players (room_heap s ! ra))"
    using assms by (simp add: leaveRoom_def Let_def)
  have mp: "map_of (r_players (room_heap (leaveRoom pa s) ! ra)) =
              (map_of (r_players (room_heap s ! ra)))(p_id (player_heap s ! pa) := None)"
    unfolding pl by (rule AList.delete_conv')
  have gs: "r_gameState (room_heap (leaveRoom pa s) ! ra) = r_gameState (room_heap s ! ra)"
    using assms by (simp add: leaveRoom_def Let_def)
  have other: "\<forall>a. a \<noteq> ra \<longrightarrow> room_heap (leaveRoom pa s) ! a = room_heap s ! a"
    using assms by (simp add: leaveRoom_def Let_def)
  have empty: "rooms (leaveRoom pa s) = AList.delete (r_id (room_heap s ! ra)) (rooms s) \<and>
               map_of (rooms (leaveRoom pa s)) (r_id (room_heap s ! ra)) = None"
    if "r_players (room_heap (leaveRoom pa s) ! ra) = []"
    using assms that [unfolded pl] by (simp add: leaveRoom_def Let_def AList.delete_conv')
  have rest: "rooms (leaveRoom pa s) = rooms s"
    if "r_players (room_heap (leaveRoom pa s) ! ra) \<noteq> []"
    using assms that [unfolded pl] by (simp add: leaveRoom_def Let_def)
  show ?thesis
    using pl mp gs other empty rest by blast
qed

theorem leaveRoom_removes_session_witness:
  "p_room (player_heap server2 ! 1) = Some 0 \<and>
   r_players (room_heap (leaveRoom 1 server2) ! 0) = [(''A'', 0)] \<and>
   gs_board (r_gameState (room_heap (leaveRoom 1 server2) ! 0)) =
     gs_board (r_gameState (room_heap server2 ! 0)) \<and>
   rooms (leaveRoom 1 server2) = [(''R'', 0)] \<and>
   p_room (player_heap server1 ! 0) = Some 0 \<and>
   r_players (room_heap (leaveRoom 0 server1) ! 0) = [] \<and>
   rooms (leaveRoom 0 server1) = []"
  using leaveRoom_removes_session [of server2 1 0] leaveRoom_removes_session [of server1 0 0]
  by (simp add: server1_def server2_def roomR_def playerA_def playerB_def)

section \<open>Room capacity\<close>

lemma sessions_upd_player [simp]: "sessions (upd_player a f s) = sessions s"
  by (simp add: sessions_def)

lemma sessions_upd_room:
  "sessions (upd_room a f s) = (sessions s)[a := r_players (f (room_heap s ! a))]"
  by (simp add: sessions_def upd_room_def map_update)

lemma map_update_same:
  "(\<And>x. g (f x) = g x) \<Longrightarrow> map g (xs[a := f (xs ! a)]) = map g xs"
  by (cases "a < length xs") (auto simp: list_eq_iff_nth_eq nth_list_update)

lemma sessions_upd_room_same [simp]:
  "(\<And>r. r_players (f r) = r_players r) \<Longrightarrow> sessions (upd_room a f s) = sessions s"
  by (simp add: sessions_def upd_room_def map_update_same)

lemma sessions_broadcastMessage [simp]: "sessions (broadcastMessage ra msg s) = sessions s"
  by (simp add: sessions_def)

lemma sessions_broadcastGameState [simp]: "sessions (broadcastGameState ra t s) = sessions s"
  by (simp add: sessions_def)

lemma startGame_loop_frame [simp]:
  "sessions (startGame_loop rnd k ra pas s) = sessions s"
  "rooms (startGame_loop rnd k ra pas s) = rooms s"
  by (induction pas arbitrary: k s) (simp_all add: Let_def)

lemma startGame_frame [simp]:
  "sessions (startGame ra rnd now s) = sessions s"
  "rooms (startGame ra rnd now s) = rooms s"
  by (simp_all add: startGame_def Let_def sessions_def [of "_\<lparr>intervals := _\<rparr>"])
     (simp add: sessions_def [symmetric])

lemma updateGame_loop_frame [simp]:
  "sessions (updateGame_loop ra pas s) = sessions s"
  "rooms (updateGame_loop ra pas s) = rooms s"
  by (induction pas arbitrary: s) (simp_all add: Let_def)

lemma updateGame_frame [simp]:
  "sessions (updateGame ra s) = sessions s"
  "rooms (updateGame ra s) = rooms s"
  by (simp_all add: updateGame_def)

lemma sessions_cong:
  "room_heap s' = room_heap s \<Longrightarrow> sessions s' = sessions s"
  by (simp add: sessions_def)

lemma endGame_frame:
  "sessions (endGame ra s) = sessions s"
  "rooms (endGame ra s) = AList.delete (r_id (room_heap s ! ra)) (rooms s)"
  by (simp_all add: endGame_def Let_def sessions_def)

lemma set_delete_subset: "set (AList.delete k al) \<subseteq> set al"
  by (auto simp: AList.delete_eq)

lemma tick_frame:
  "sessions (tick ra now s) = sessions s"
  "set (rooms (tick ra now s)) \<subseteq> set (rooms s)"
proof -
  have "room_heap (endGame ra (updateGame ra s)) = room_heap (updateGame ra s)"
    by (simp add: endGame_def Let_def)
  then show "sessions (tick ra now s) = sessions s"
    using updateGame_frame(1) [of ra s] by (simp add: tick_def Let_def sessions_def)
  show "set (rooms (tick ra now s)) \<subseteq> set (rooms s)"
    using set_delete_subset [of _ "rooms s"] by (auto simp: tick_def Let_def endGame_frame)
qed

lemma processMessage_frame:
  "sessions (processMessage pa message draw s) = sessions s"
  "rooms (processMessage pa message draw s) = rooms s"
  by (simp_all add: processMessage_def Let_def split: option.split)

lemma sessions_delete:
  "sessions (upd_room ra (\<lambda>r. r\<lparr>r_players := AList.delete k (r_players r)\<rparr>) s) =
     (sessions s)[ra := AList.delete k (sessions s ! ra)]"
  by (cases "ra < length (room_heap s)")
     (simp_all add: sessions_def upd_room_def map_update list_update_beyond)

lemma sessions_update:
  "sessions (upd_room ra (\<lambda>r. r\<lparr>r_players := AList.update k v (r_players r)\<rparr>) s) =
     (sessions s)[ra := AList.update k v (sessions s ! ra)]"
  by (cases "ra < length (room_heap s)")
     (simp_all add: sessions_def upd_room_def map_update list_update_beyond)

lemma leaveRoom_sessions:
  "sessions (leaveRoom pa s) = sessions s \<or>
   (\<exists>ra k. sessions (leaveRoom pa s) = (sessions s)[ra := AList.delete k (sessions s ! ra)])"
proof (cases "p_room (player_heap s ! pa)")
  case None
  then show ?thesis by (simp add: leaveRoom_def)
next
  case (Some ra)
  let ?s1 = "upd_room ra
     (\<lambda>r. r\<lparr>r_players := AList.delete (p_id (player_heap s ! pa)) (r_players r)\<rparr>) s"
  have "room_heap (leaveRoom pa s) = room_heap ?s1"
    using Some by (simp add: leaveRoom_def Let_def)
  then have "sessions (leaveRoom pa s) = sessions ?s1"
    by (rule sessions_cong)
  then show ?thesis
    using sessions_delete [of ra "p_id (player_heap s ! pa)" s] by metis
qed

lemma in_set_deleteD: "x \<in> set (AList.delete k al) \<Longrightarrow> x \<in> set al"
  using set_delete_subset by fastforce

lemma leaveRoom_rooms: "set (rooms (leaveRoom pa s)) \<subseteq> set (rooms s)"
proof (cases "p_room (player_heap s ! pa)")
  case None
  then show ?thesis by (simp add: leaveRoom_def)
next
  case (Some ra)
  have "rooms (leaveRoom pa s) = rooms s \<or> (\<exists>k. rooms (leaveRoom pa s) = AList.delete k (rooms s))"
    using Some by (auto simp: leaveRoom_def Let_def)
  then show ?thesis by (auto dest: in_set_deleteD)
qed

lemma joinRoom_rooms: "rooms (joinRoom pa ra rnd now s) = rooms s"
  by (simp add: joinRoom_def Let_def)

lemma joinRoom_sessions:
  "\<exists>k. sessions (joinRoom pa ra rnd now s) = (sessions s)[ra := AList.update k pa (sessions s ! ra)]"
proof -
  let ?s1 = "upd_player pa (\<lambda>p. p\<lparr>p_room := Some ra\<rparr>) s"
  let ?k = "p_id (player_heap ?s1 ! pa)"
  let ?s2 = "upd_room ra (\<lambda>r. r\<lparr>r_players := AList.update ?k pa (r_players r)\<rparr>) ?s1"
  have "sessions (joinRoom pa ra rnd now s) = sessions ?s2"
    by (simp add: joinRoom_def Let_def)
  also have "\<dots> = (sessions s)[ra := AList.update ?k pa (sessions s ! ra)]"
    by (simp add: sessions_update)
  finally show ?thesis by blast
qed

lemma directory_ok_iff:
  "directory_ok s \<longleftrightarrow>
     (\<forall>a < length (sessions s). length (sessions s ! a) \<le> maxPlayers) \<and>
     (\<forall>(k, ra) \<in> set (rooms s). ra < length (sessions s))"
proof -
  have "list_all (\<lambda>members. length members \<le> maxPlayers) (sessions s) \<longleftrightarrow>
          (\<forall>a < length (sessions s). length (sessions s ! a) \<le> maxPlayers)"
    by (simp add: list_all_length)
  then show ?thesis
    by (simp add: directory_ok_def) (simp add: list_all_iff)
qed

lemma directory_ok_init: "directory_ok init_server"
  by (simp add: directory_ok_def init_server_def sessions_def)

lemma directory_ok_shrink:
  assumes "directory_ok s"
    and "length (sessions s') = length (sessions s)"
    and "\<And>a. a < length (sessions s) \<Longrightarrow> length (sessions s' ! a) \<le> length (sessions s ! a)"
    and "set (rooms s') \<subseteq> set (rooms s)"
  shows "directory_ok s'"
  using assms unfolding directory_ok_iff by (fastforce intro: order_trans)

lemma tick_ok: "directory_ok s \<Longrightarrow> directory_ok (tick ra now s)"
  by (rule directory_ok_shrink [where s = s]) (simp_all add: tick_frame)

lemma processMessage_ok: "directory_ok s \<Longrightarrow> directory_ok (processMessage pa message draw s)"
  by (rule directory_ok_shrink [where s = s]) (simp_all add: processMessage_frame)

lemma leaveRoom_ok:
  assumes "directory_ok s"
  shows "directory_ok (leaveRoom pa s)"
proof (rule directory_ok_shrink [OF assms])
  show "length (sessions (leaveRoom pa s)) = length (sessions s)"
    using leaveRoom_sessions [of pa s] by auto
  show "length (sessions (leaveRoom pa s) ! a) \<le> length (sessions s ! a)"
    if "a < length (sessions s)" for a
  proof -
    have "length ((sessions s)[ra := AList.delete k (sessions s ! ra)] ! a)
            \<le> length (sessions s ! a)" for ra k
      using that AList.length_delete_le [of k "sessions s ! a"]
      by (cases "ra = a") simp_all
    then show ?thesis
      using leaveRoom_sessions [of pa s] by auto
  qed
  show "set (rooms (leaveRoom pa s)) \<subseteq> set (rooms s)"
    by (rule leaveRoom_rooms)
qed

lemma directory_ok_cong:
  "room_heap s' = room_heap s \<Longrightarrow> rooms s' = rooms s \<Longrightarrow> directory_ok s' = directory_ok s"
  by (simp add: directory_ok_def sessions_def)

lemma onmessage_ok: "directory_ok s \<Longrightarrow> directory_ok (onmessage socket message draw s)"
  by (simp add: onmessage_def processMessage_ok split: option.split)

lemma onclose_ok: "directory_ok s \<Longrightarrow> directory_ok (onclose socket s)"
  using leaveRoom_ok [of s]
  by (auto simp: onclose_def Let_def directory_ok_cong [of "_\<lparr>playerMap := _\<rparr>"] split: option.split)

lemma joinRoom_ok:
  assumes "directory_ok s" and "ra < length (sessions s)"
    and "length (sessions s ! ra) < maxPlayers"
  shows "directory_ok (joinRoom pa ra rnd now s)"
proof -
  obtain k where k: "sessions (joinRoom pa ra rnd now s) =
      (sessions s)[ra := AList.update k pa (sessions s ! ra)]"
    using joinRoom_sessions by blast
  have "length (AList.update k pa (sessions s ! ra)) \<le> maxPlayers"
    using assms(3) length_update_le [of k pa "sessions s ! ra"] by simp
  then show ?thesis
    using assms(1,2) unfolding directory_ok_iff k joinRoom_rooms
    by (auto simp: nth_list_update)
qed

lemma createRoom_frame:
  "sessions (fst (createRoom roomId s)) = sessions s @ [[]]"
  "rooms (fst (createRoom roomId s)) = AList.update roomId (length (sessions s)) (rooms s)"
  "snd (createRoom roomId s) = length (sessions s)"
  "player_heap (fst (createRoom roomId s)) = player_heap s"
  by (simp_all add: createRoom_def Let_def sessions_def)

lemma in_set_updateD: "x \<in> set (AList.update k v al) \<Longrightarrow> x = (k, v) \<or> x \<in> set al"
  by (induction al) (auto split: if_splits)

lemma createRoom_ok:
  assumes "directory_ok s"
  shows "directory_ok (fst (createRoom roomId s))"
  using assms unfolding directory_ok_iff createRoom_frame
  by (auto simp: nth_append dest!: in_set_updateD)

lemma findOrCreateRoom_cases:
  "(\<exists>k. findOrCreateRoom roomId s = (s, ra) \<and> (k, ra) \<in> set (rooms s) \<and>
        length (r_players (room_heap s ! ra)) < maxPlayers) \<or>
   (findOrCreateRoom roomId s = createRoom roomId s \<and>
    list_all (\<lambda>(k, a). \<not> length (r_players (room_heap s ! a)) < maxPlayers) (rooms s))"
  if "snd (findOrCreateRoom roomId s) = ra"
proof (cases "List.find (\<lambda>(k, ra). length (r_players (room_heap s ! ra)) < maxPlayers) (rooms s)")
  case None
  have "findOrCreateRoom roomId s = createRoom roomId s"
    using None by (simp add: findOrCreateRoom_def)
  moreover have "list_all (\<lambda>(k, a). \<not> length (r_players (room_heap s ! a)) < maxPlayers) (rooms s)"
    using None unfolding find_None_iff by (auto simp: list_all_iff)
  ultimately show ?thesis by simp
next
  case (Some x)
  obtain k a where x: "x = (k, a)" by (cases x)
  have "(k, a) \<in> set (rooms s)" "length (r_players (room_heap s ! a)) < maxPlayers"
    using Some unfolding x find_Some_iff by (auto simp: in_set_conv_nth)
  moreover have "findOrCreateRoom roomId s = (s, a)"
    using Some x by (simp add: findOrCreateRoom_def)
  ultimately show ?thesis using that by auto
qed

lemma findOrCreateRoom_ok:
  assumes "directory_ok s" and "findOrCreateRoom roomId s = (s', ra)"
  shows "directory_ok s'" and "ra < length (sessions s')"
    and "length (sessions s' ! ra) < maxPlayers"
proof -
  have r: "snd (findOrCreateRoom roomId s) = ra" using assms(2) by simp
  consider (found) k where "s' = s" "(k, ra) \<in> set (rooms s)"
      "length (r_players (room_heap s ! ra)) < maxPlayers"
    | (made) "(s', ra) = createRoom roomId s"
    using findOrCreateRoom_cases [OF r] assms(2) by auto
  then have "directory_ok s' \<and> ra < length (sessions s') \<and> length (sessions s' ! ra) < maxPlayers"
  proof cases
    case found
    have "ra < length (sessions s)"
      using assms(1) found(2) unfolding directory_ok_iff by auto
    then show ?thesis
      using assms(1) found(1,3) by (simp add: sessions_def)
  next
    case made
    have "s' = fst (createRoom roomId s)" "ra = snd (createRoom roomId s)"
      using made by (metis fst_conv, metis snd_conv)
    then show ?thesis
      using createRoom_ok [OF assms(1), of roomId]
      by (simp add: createRoom_frame maxPlayers_def)
  qed
  then show "directory_ok s'" and "ra < length (sessions s')"
    and "length (sessions s' ! ra) < maxPlayers" by simp_all
qed

lemma onopen_ok:
  assumes "directory_ok s"
  shows "directory_ok (onopen socket e s)"
proof -
  let ?s1 = "s\<lparr>player_heap := player_heap s @ [createPlayer socket e],
               playerMap := AList.update socket (length (player_heap s)) (playerMap s)\<rparr>"
  obtain s2 ra where f: "findOrCreateRoom (e_roomId e) ?s1 = (s2, ra)"
    by (cases "findOrCreateRoom (e_roomId e) ?s1")
  have "directory_ok ?s1"
    using assms by (simp add: directory_ok_cong [of ?s1 s])
  from findOrCreateRoom_ok [OF this f]
  have "directory_ok (joinRoom (length (player_heap s)) ra (e_spawn e) (e_now e) s2)"
    by (rule joinRoom_ok)
  then show ?thesis
    using f by (simp add: onopen_def Let_def)
qed

lemma step_ok: "directory_ok s \<Longrightarrow> directory_ok (step s event)"
  by (cases event) (simp_all add: onopen_ok onmessage_ok onclose_ok tick_ok)

lemma run_ok: "directory_ok (run events)"
proof (induction events rule: rev_induct)
  case Nil
  then show ?case by (simp add: run_def directory_ok_init)
next
  case (snoc event events)
  then show ?case using step_ok [of "run events" event] by (simp add: run_def)
qed

lemma createRoom_registers:
  "map_of (rooms (fst (createRoom roomId s))) roomId = Some (snd (createRoom roomId s))"
  "r_players (room_heap (fst (createRoom roomId s)) ! snd (createRoom roomId s)) = []"
  by (simp_all add: createRoom_def Let_def AList.update_conv')

text \<open>
  C6. In every state the server reaches from its start, by any sequence of connections,
  messages, disconnections and timer ticks, every room of the directory (and every room
  object at all) has at most \<open>maxPlayers\<close> = 4 sessions. \<open>findOrCreateRoom\<close> returns a
  room with fewer than \<open>maxPlayers\<close> sessions: a room of the directory, or, when every
  room of the directory is full, a new room without sessions that it registers; the
  \<open>joinRoom\<close> that follows leaves that room with at most \<open>maxPlayers\<close>.
\<close>

theorem room_capacity:
  "maxPlayers = 4 \<and>
   (\<forall>(k, ra) \<in> set (rooms (run events)).
      ra < length (room_heap (run events)) \<and>
      length (r_players (room_heap (run events) ! ra)) \<le> maxPlayers) \<and>
   (\<forall>a < length (room_heap (run events)).
      length (r_players (room_heap (run events) ! a)) \<le> maxPlayers) \<and>
   (findOrCreateRoom roomId (run events) = (s', ra) \<longrightarrow>
      ra < length (room_heap s') \<and>
      length (r_players (room_heap s' ! ra)) < maxPlayers \<and>
      (s' = run events \<and> ra \<in> snd ` set (rooms (run events)) \<or>
       r_players (room_heap s' ! ra) = [] \<and> map_of (rooms s') roomId = Some ra \<and>
       list_all (\<lambda>(k, a). \<not> length (r_players (room_heap (run events) ! a)) < maxPlayers)
         (rooms (run events))) \<and>
      length (r_players (room_heap (joinRoom pa ra rnd now s') ! ra)) \<le> maxPlayers)"
proof -
  let ?s = "run events"
  have ok: "directory_ok ?s" by (rule run_ok)
  have heap: "\<forall>a < length (room_heap ?s). length (r_players (room_heap ?s ! a)) \<le> maxPlayers"
    using ok unfolding directory_ok_iff by (simp add: sessions_def)
  have dir: "\<forall>(k, ra) \<in> set (rooms ?s).
      ra < length (room_heap ?s) \<and> length (r_players (room_heap ?s ! ra)) \<le> maxPlayers"
    using ok heap unfolding directory_ok_iff by (auto simp: sessions_def)
  have found: "ra < length (room_heap s') \<and>
      length (r_players (room_heap s' ! ra)) < maxPlayers \<and>
      (s' = ?s \<and> ra \<in> snd ` set (rooms ?s) \<or>
       r_players (room_heap s' ! ra) = [] \<and> map_of (rooms s') roomId = Some ra \<and>
       list_all (\<lambda>(k, a). \<not> length (r_players (room_heap ?s ! a)) < maxPlayers) (rooms ?s)) \<and>
      length (r_players (room_heap (joinRoom pa ra rnd now s') ! ra)) \<le> maxPlayers"
    if f: "findOrCreateRoom roomId ?s = (s', ra)"
  proof -
    note r = findOrCreateRoom_ok [OF ok f]
    have a: "ra < length (room_heap s')" "length (r_players (room_heap s' ! ra)) < maxPlayers"
      using r(2,3) by (simp_all add: sessions_def)
    have j: "directory_ok (joinRoom pa ra rnd now s')"
      using r by (rule joinRoom_ok)
    obtain k where "sessions (joinRoom pa ra rnd now s') =
        (sessions s')[ra := AList.update k pa (sessions s' ! ra)]"
      using joinRoom_sessions by blast
    then have "length (sessions (joinRoom pa ra rnd now s')) = length (sessions s')"
      by simp
    then have "length (r_players (room_heap (joinRoom pa ra rnd now s') ! ra)) \<le> maxPlayers"
      using j r(2) unfolding directory_ok_iff by (simp add: sessions_def)
    moreover have "s' = ?s \<and> ra \<in> snd ` set (rooms ?s) \<or>
       r_players (room_heap s' ! ra) = [] \<and> map_of (rooms s') roomId = Some ra \<and>
       list_all (\<lambda>(k, a). \<not> length (r_players (room_heap ?s ! a)) < maxPlayers) (rooms ?s)"
    proof -
      have "snd (findOrCreateRoom roomId ?s) = ra" using f by simp
      from findOrCreateRoom_cases [OF this] show ?thesis
      proof
        assume "\<exists>k. findOrCreateRoom roomId ?s = (?s, ra) \<and> (k, ra) \<in> set (rooms ?s) \<and>
            length (r_players (room_heap ?s ! ra)) < maxPlayers"
        then show ?thesis using f by force
      next
        assume c: "findOrCreateRoom roomId ?s = createRoom roomId ?s \<and>
          list_all (\<lambda>(k, a). \<not> length (r_players (room_heap ?s ! a)) < maxPlayers) (rooms ?s)"
        then have "createRoom roomId ?s = (s', ra)"
          using f by simp
        then have "s' = fst (createRoom roomId ?s)" "ra = snd (createRoom roomId ?s)"
          by simp_all
        then show ?thesis using c createRoom_registers [of roomId ?s] by simp
      qed
    qed
    ultimately show ?thesis using a by simp
  qed
  show ?thesis
    using heap dir found by (simp add: maxPlayers_def)
qed

theorem room_capacity_witness:
  "rooms (run [Open 1 entropyA, Open 2 entropyB]) = [(''R'', 0)] \<and>
   length (r_players (room_heap (run [Open 1 entropyA, Open 2 entropyB]) ! 0)) = 2 \<and>
   findOrCreateRoom ''S'' (run [Open 1 entropyA, Open 2 entropyB]) =
     (run [Open 1 entropyA, Open 2 entropyB], 0) \<and>
   length (r_players (room_heap
     (joinRoom 5 0 (\<lambda>k. (0, 0)) 60 (run [Open 1 entropyA, Open 2 entropyB])) ! 0)) \<le> 4"
proof -
  have f: "findOrCreateRoom ''S'' (run [Open 1 entropyA, Open 2 entropyB]) =
     (run [Open 1 entropyA, Open 2 entropyB], 0)"
    unfolding run_server2
    by (simp add: findOrCreateRoom_def server2_def roomR_def maxPlayers_def)
  show ?thesis
    using room_capacity [of "[Open 1 entropyA, Open 2 entropyB]" "''S''"
        "run [Open 1 entropyA, Open 2 entropyB]" 0 5 "\<lambda>k. (0, 0)" 60] f
    unfolding run_server2
    by (simp add: server2_def roomR_def maxPlayers_def)
qed

section \<open>The end of a game\<close>

lemma fold_pick:
  fixes score :: "nat \<Rightarrow> int"
  defines "f \<equiv> (\<lambda>player best. if score player > score best then player else best)"
  shows "(\<forall>x \<in> set xs. score x \<le> score (fold f xs m)) \<and> score m \<le> score (fold f xs m) \<and>
         (fold f xs m = m \<or>
          (\<exists>i < length xs. fold f xs m = xs ! i \<and> score m < score (xs ! i) \<and>
             (\<forall>j < i. score (xs ! j) < score (xs ! i))))"
proof (induction xs arbitrary: m)
  case Nil
  then show ?case by simp
next
  case (Cons x xs)
  let ?m = "f x m"
  let ?r = "fold f xs ?m"
  have m: "score m \<le> score ?m" "score x \<le> score ?m" "?m = m \<or> ?m = x \<and> score m < score x"
    by (simp_all add: f_def)
  note IH = Cons.IH [of ?m]
  have r: "fold f (x # xs) m = ?r" by simp
  have all: "\<forall>y \<in> set (x # xs). score y \<le> score ?r" using IH m(2) by auto
  have ge: "score m \<le> score ?r" using IH m(1) by linarith
  have pos: "?r = m \<or> (\<exists>i < length (x # xs). ?r = (x # xs) ! i \<and> score m < score ((x # xs) ! i) \<and>
             (\<forall>j < i. score ((x # xs) ! j) < score ((x # xs) ! i)))"
  proof -
    from IH have "?r = ?m \<or> (\<exists>i < length xs. ?r = xs ! i \<and> score ?m < score (xs ! i) \<and>
             (\<forall>j < i. score (xs ! j) < score (xs ! i)))" by simp
    then show ?thesis
    proof
      assume "?r = ?m"
      then show ?thesis using m(3) by force
    next
      assume "\<exists>i < length xs. ?r = xs ! i \<and> score ?m < score (xs ! i) \<and>
             (\<forall>j < i. score (xs ! j) < score (xs ! i))"
      then obtain i where i: "i < length xs" "?r = xs ! i" "score ?m < score (xs ! i)"
        "\<forall>j < i. score (xs ! j) < score (xs ! i)" by blast
      have "\<forall>j < Suc i. score ((x # xs) ! j) < score ((x # xs) ! Suc i)"
      proof (intro allI impI)
        fix j assume "j < Suc i"
        then show "score ((x # xs) ! j) < score ((x # xs) ! Suc i)"
          using i(3,4) m(2) by (cases j) auto
      qed
      moreover have "score m < score ((x # xs) ! Suc i)" using i(3) m(1) by simp
      ultimately have "Suc i < length (x # xs) \<and> ?r = (x # xs) ! Suc i \<and>
          score m < score ((x # xs) ! Suc i) \<and>
          (\<forall>j < Suc i. score ((x # xs) ! j) < score ((x # xs) ! Suc i))"
        using i(1,2) by simp
      then show ?thesis by blast
    qed
  qed
  show ?case unfolding r using all ge pos by blast
qed

text \<open>
  The Deno server's \<open>reduce\<close>: no winner for the empty list; otherwise the winner is the
  first entry of \<open>gameState.players\<close> whose score is the highest.
\<close>

lemma pickWinner_first_max:
  "pickWinner heap [] = None"
  "players \<noteq> [] \<Longrightarrow>
     \<exists>i < length players. pickWinner heap players = Some (players ! i) \<and>
       (\<forall>j < length players. p_score (heap ! (players ! j)) \<le> p_score (heap ! (players ! i))) \<and>
       (\<forall>j < i. p_score (heap ! (players ! j)) < p_score (heap ! (players ! i)))"
proof -
  show "pickWinner heap [] = None" by (simp add: pickWinner_def)
  assume "players \<noteq> []"
  then obtain first rest where p: "players = first # rest" by (cases players) auto
  let ?score = "\<lambda>pa. p_score (heap ! pa)"
  let ?f = "\<lambda>player best. if ?score player > ?score best then player else best"
  let ?r = "fold ?f players first"
  have w: "pickWinner heap players = Some ?r" by (simp add: pickWinner_def p)
  note fp = fold_pick [where score = ?score and xs = players and m = first]
  have all: "\<forall>j < length players. ?score (players ! j) \<le> ?score ?r"
    using fp by simp
  from fp have "?r = first \<or> (\<exists>i < length players. ?r = players ! i \<and>
      ?score first < ?score (players ! i) \<and> (\<forall>j < i. ?score (players ! j) < ?score (players ! i)))"
    by blast
  then have "\<exists>i < length players. ?r = players ! i \<and>
      (\<forall>j < i. ?score (players ! j) < ?score (players ! i))"
  proof
    assume "?r = first"
    then have "0 < length players \<and> ?r = players ! 0 \<and>
        (\<forall>j < 0. ?score (players ! j) < ?score (players ! 0))"
      by (simp add: p)
    then show ?thesis by blast
  next
    assume "\<exists>i < length players. ?r = players ! i \<and>
      ?score first < ?score (players ! i) \<and> (\<forall>j < i. ?score (players ! j) < ?score (players ! i))"
    then show ?thesis by blast
  qed
  then obtain i where "i < length players" "?r = players ! i"
    "\<forall>j < i. ?score (players ! j) < ?score (players ! i)" by blast
  then have "i < length players \<and> pickWinner heap players = Some (players ! i) \<and>
       (\<forall>j < length players. ?score (players ! j) \<le> ?score (players ! i)) \<and>
       (\<forall>j < i. ?score (players ! j) < ?score (players ! i))"
    using w all by simp
  then show "\<exists>i < length players. pickWinner heap players = Some (players ! i) \<and>
       (\<forall>j < length players. ?score (players ! j) \<le> ?score (players ! i)) \<and>
       (\<forall>j < i. ?score (players ! j) < ?score (players ! i))"
    by blast
qed

text \<open>The Go server's loop names nobody unless some session has a positive score.\<close>

lemma fold_pick_go:
  fixes score :: "nat \<Rightarrow> int"
  defines "f \<equiv> (\<lambda>player (winner, maxScore).
      if score player > maxScore then (Some player, score player) else (winner, maxScore))"
  shows "(\<forall>x \<in> set xs. score x \<le> mx) \<Longrightarrow> fold f xs (w, mx) = (w, mx)"
  by (induction xs) (auto simp: f_def)

lemma pickWinner_go_none:
  "(\<forall>pa \<in> set players. g_Score (heap ! pa) \<le> 0) \<Longrightarrow> pickWinner_go heap players = None"
  using fold_pick_go [where xs = players and score = "\<lambda>pa. g_Score (heap ! pa)" and mx = 0 and w = None]
  by (simp add: pickWinner_go_def)

lemma tick_game_over:
  assumes "r_duration (room_heap (updateGame ra s) ! ra)
             - (now - r_startTime (room_heap (updateGame ra s) ! ra)) \<le> 0"
  shows "rooms (tick ra now s) = AList.delete (r_id (room_heap (updateGame ra s) ! ra)) (rooms s)"
    and "intervals (tick ra now s) = remove1 ra (intervals (updateGame ra s))"
    and "take (length (r_players (room_heap (updateGame ra s) ! ra)))
           (drop (length (sent (updateGame ra s))) (sent (tick ra now s))) =
         map (\<lambda>(k, pa). (p_socket (player_heap (updateGame ra s) ! pa),
                GameOver (map_option (\<lambda>pa. playerData (player_heap (updateGame ra s) ! pa))
                  (pickWinner (player_heap (updateGame ra s))
                     (gs_players (r_gameState (room_heap (updateGame ra s) ! ra)))))))
           (r_players (room_heap (updateGame ra s) ! ra))"
  using assms
  by (simp_all add: tick_def Let_def endGame_def broadcastMessage_def broadcastGameState_def)

text \<open>
  C2, evaluated. Deno server: \<open>A\<close> opens a room, \<open>B\<close> joins it, \<open>A\<close> disconnects, and the
  timer fires when the three minutes are over. \<open>B\<close> is the only session of the room, and
  the \<open>gameOver\<close> it receives names \<open>A\<close>, with score 1: the winner is taken from
  \<open>gameState.players\<close>, which still holds the player that started the game and nobody
  else. The room is removed and its timer cleared. Go server: a room whose only session
  has score 0 gets a \<open>gameOver\<close> without a winner.
\<close>

theorem gameOver_winner_not_top_session:
  "r_players (room_heap (run [Open 1 entropyA, Open 2 entropyB, Close 1]) ! 0) = [(''B'', 1)] \<and>
   take 3 (sent (step (run [Open 1 entropyA, Open 2 entropyB, Close 1]) (Tick 0 180000))) =
     [(1, PlayerJoined []), (2, PlayerJoined []),
      (2, GameOver (Some (playerData (playerA\<lparr>p_score := 1, p_room := None\<rparr>))))] \<and>
   rooms (step (run [Open 1 entropyA, Open 2 entropyB, Close 1]) (Tick 0 180000)) = [] \<and>
   intervals (step (run [Open 1 entropyA, Open 2 entropyB, Close 1]) (Tick 0 180000)) = [] \<and>
   gr_Players (go_room_heap goServer1 ! 0) = [(''a'', 0)] \<and>
   g_Score (go_player_heap goServer1 ! 0) = 0 \<and>
   go_sent (endGame_go (\<lambda>m. m) (\<lambda>m. m) 0 goServer1) = [(1, GoGameOver None)] \<and>
   go_rooms (endGame_go (\<lambda>m. m) (\<lambda>m. m) 0 goServer1) = []"
proof -
  have "step server5 (Tick 0 180000) = tick 0 180000 server5"
    by (simp add: server5_def)
  then show ?thesis
    unfolding run_server5
    by (simp add: tick_server5 endGame_go_goServer1) (simp add: server5_def roomR_def)
qed

end
